theory Spec2Isabelle
  imports Main
begin

section \<open>Story data (story-format.js)\<close>

text \<open>
  A story is authored as plain JavaScript data. The model follows the typedefs of
  story-format.js. A field that the code only tests for truthiness is an \<open>option\<close>
  (\<open>None\<close> stands for \<open>undefined\<close> or \<open>null\<close>, which the code treats alike
  there); a string is falsy exactly when it is absent or empty. The \<open>id\<close> of a
  background, show_character or hide_character step is also used as a property key,
  printed and compared, where \<open>undefined\<close> and \<open>null\<close> differ: it is an \<open>ident\<close>.
\<close>

datatype ident = Undefined | Null | Id string

text \<open>
  Variable values are scalars. The functions an author puts into a story receive the
  state: a test and a computed value read the variables and return a result or throw;
  an effect returns the variables as it leaves them, together with the exception if it
  threw.
\<close>

datatype val = VUndefined | VNull | VBool bool | VNum int | VStr string

type_synonym vars = "string \<Rightarrow> val option"

datatype exn = JsError string

type_synonym test_fn = "vars \<Rightarrow> exn + bool"
type_synonym compute_value = "vars \<Rightarrow> exn + val"
type_synonym effect_fn = "vars \<Rightarrow> exn option \<times> vars"

text \<open>The \<open>value\<close> of a set_variable step; a missing value is \<open>Literal VUndefined\<close>.\<close>

datatype step_value = Literal val | Compute compute_value

datatype character_pose = CharacterPose (pose_name: string)
datatype character_position = CharacterPosition (position_name: string)

text \<open>A choice option is the array \<open>[label, nodeId, effectFn?]\<close>.\<close>

datatype choice_option =
  ChoiceOption (opt_label: "string option") (opt_nodeId: "string option")
    (opt_effectFn: "effect_fn option")

datatype step =
    Background ident
  | ShowCharacter ident "character_pose option" "character_position option"
  | HideCharacter ident
  | Dialogue "string option" "string option"
  | Narration "string option"
  | SetVariable "string option" step_value
  | JumpTo "string option"
  | ConditionalJump "test_fn option" "string option" "string option"
  | Choice "string option" "choice_option list"
  | EndStory
  | UnknownType string
  | MissingType

text \<open>
  \<open>Nodes\<close> is \<open>Record<string, Step[] | Nodes>\<close>: an object whose values are step
  arrays or nested objects. An object is the list of its entries in key order (the
  keys of an object are distinct).
\<close>

datatype node = Steps "step list" | Group "(string \<times> node) list"

record character =
  name :: string
  poses :: "(string \<times> string) list"

text \<open>\<open>variables\<close> is a reference to the object that holds the initial values.\<close>

record story =
  start :: "string option"
  variables :: "nat option"
  nodes :: "(string \<times> node) list option"
  characters :: "(string \<times> character) list option"
  places :: "(string \<times> string) list option"

definition truthy :: "string option \<Rightarrow> bool" where
  "truthy s = (case s of None \<Rightarrow> False | Some t \<Rightarrow> t \<noteq> [])"

fun truthy_id :: "ident \<Rightarrow> bool" where
  "truthy_id (Id s) = (s \<noteq> [])"
| "truthy_id i = False"

text \<open>An \<open>id\<close> as a property key and as a template literal prints it.\<close>

fun key_of :: "ident \<Rightarrow> string" where
  "key_of Undefined = ''undefined''"
| "key_of Null = ''null''"
| "key_of (Id s) = s"

definition absent :: "'a option \<Rightarrow> bool" where
  "absent x = (case x of None \<Rightarrow> True | Some y \<Rightarrow> False)"

fun value_undefined :: "step_value \<Rightarrow> bool" where
  "value_undefined (Literal VUndefined) = True"
| "value_undefined v = False"

text \<open>\<open>String.prototype.split('.')\<close> and \<open>Array.prototype.join('.')\<close>.\<close>

fun split_dot :: "string \<Rightarrow> string list" where
  "split_dot [] = [[]]"
| "split_dot (c # cs) =
     (if c = CHR ''.'' then [] # split_dot cs
      else (case split_dot cs of [] \<Rightarrow> [[c]] | p # ps \<Rightarrow> (c # p) # ps))"

fun join_dot :: "string list \<Rightarrow> string" where
  "join_dot [] = []"
| "join_dot [p] = p"
| "join_dot (p # q # ps) = p @ ''.'' @ join_dot (q # ps)"

text \<open>Decimal rendering of an index, as template literals and array keys print it.\<close>

fun string_of_nat :: "nat \<Rightarrow> string" where
  "string_of_nat n =
     (if n < 10 then [char_of (48 + n)]
      else string_of_nat (n div 10) @ [char_of (48 + n mod 10)])"

declare string_of_nat.simps [simp del]

section \<open>Property lookup\<close>

text \<open>
  \<open>obj[key]\<close> finds the own properties of \<open>obj\<close> and, failing that, what \<open>obj\<close>
  inherits from the built-in prototypes of the JavaScript runtime; on a step array it
  finds the elements (under their decimal indices) and \<open>length\<close>. A lookup can so
  leave the story's data: \<open>foreign\<close> are the values it can reach there, an element of
  a step array, the length of one, or a built-in value of the runtime (a function or a
  prototype object, by name).
\<close>

datatype foreign = Element step | Length nat | Function string | Prototype string

datatype jsval = Node node | Foreign foreign

text \<open>
  What \<open>character.poses[poseName]\<close> gives when \<open>character\<close> is a foreign value: a
  \<open>TypeError\<close> (its \<open>poses\<close> is \<open>undefined\<close> or \<open>null\<close>), a falsy value (with
  the keys of its \<open>poses\<close>), or a truthy value (as a template literal prints it).
\<close>

datatype pose_lookup = PoseThrows | PoseFalsy "string list" | PoseTruthy string

text \<open>
  The runtime is not part of the repository; the code is modelled for any runtime,
  given by what it answers:
  \<^item> \<open>object_inherits k\<close>, \<open>array_inherits k\<close>: the truthy value that every plain
    object, every array, inherits under the name \<open>k\<close>, if there is one;
  \<^item> \<open>foreign_member v k\<close>: the truthy value of \<open>v[k]\<close>, if there is one;
  \<^item> \<open>foreign_array v\<close>: the elements of \<open>v\<close>, as steps, if \<open>Array.isArray(v)\<close>;
  \<^item> \<open>foreign_keys v\<close>: \<open>Object.keys(v)\<close>;
  \<^item> \<open>foreign_string v\<close>: \<open>v\<close> as a template literal prints it;
  \<^item> \<open>foreign_pose v k\<close>: \<open>v.poses[k]\<close>;
  \<^item> \<open>foreign_name v\<close>: \<open>v.name\<close> as the page shows it.
\<close>

record runtime =
  object_inherits :: "string \<Rightarrow> foreign option"
  array_inherits :: "string \<Rightarrow> foreign option"
  foreign_member :: "foreign \<Rightarrow> string \<Rightarrow> foreign option"
  foreign_array :: "foreign \<Rightarrow> step list option"
  foreign_keys :: "foreign \<Rightarrow> string list"
  foreign_string :: "foreign \<Rightarrow> string"
  foreign_pose :: "foreign \<Rightarrow> string \<Rightarrow> pose_lookup"
  foreign_name :: "foreign \<Rightarrow> string"

text \<open>
  \<open>obj[key]\<close> on a plain object of the story, given by its entries: the own value
  under the key, else the truthy value inherited under it, else nothing truthy
  (\<open>None\<close>). Every use in the code tests the result for truthiness first.
\<close>

datatype 'a member = Own 'a | Inherited foreign

definition object_get :: "runtime \<Rightarrow> (string \<times> 'a) list \<Rightarrow> string \<Rightarrow> 'a member option" where
  "object_get rt kvs k =
     (case map_of kvs k of
        Some v \<Rightarrow> Some (Own v)
      | None \<Rightarrow> (case object_inherits rt k of None \<Rightarrow> None | Some f \<Rightarrow> Some (Inherited f)))"

text \<open>
  The same on a step array: the element under a decimal index, a non-zero \<open>length\<close>,
  or an inherited value.
\<close>

definition array_get :: "runtime \<Rightarrow> step list \<Rightarrow> string \<Rightarrow> foreign option" where
  "array_get rt ss k =
     (case map_of (zip (map string_of_nat [0..<length ss]) ss) k of
        Some s \<Rightarrow> Some (Element s)
      | None \<Rightarrow>
          if k = ''length'' then (if ss = [] then None else Some (Length (length ss)))
          else array_inherits rt k)"

text \<open>
  \<open>current[part]\<close> in the resolvers, where only a truthy value counts (the values of
  the node tree are arrays and objects, all truthy), \<open>Object.keys(current)\<close> and
  \<open>Array.isArray(current)\<close>.
\<close>

fun get_prop :: "runtime \<Rightarrow> jsval \<Rightarrow> string \<Rightarrow> jsval option" where
  "get_prop rt (Node (Group kvs)) k =
     (case object_get rt kvs k of
        None \<Rightarrow> None
      | Some (Own v) \<Rightarrow> Some (Node v)
      | Some (Inherited f) \<Rightarrow> Some (Foreign f))"
| "get_prop rt (Node (Steps ss)) k =
     (case array_get rt ss k of None \<Rightarrow> None | Some f \<Rightarrow> Some (Foreign f))"
| "get_prop rt (Foreign f) k =
     (case foreign_member rt f k of None \<Rightarrow> None | Some g \<Rightarrow> Some (Foreign g))"

fun object_keys :: "runtime \<Rightarrow> jsval \<Rightarrow> string list" where
  "object_keys rt (Node (Group kvs)) = map fst kvs"
| "object_keys rt (Node (Steps ss)) = map string_of_nat [0..<length ss]"
| "object_keys rt (Foreign f) = foreign_keys rt f"

fun as_steps :: "runtime \<Rightarrow> jsval \<Rightarrow> step list option" where
  "as_steps rt (Node (Steps ss)) = Some ss"
| "as_steps rt (Node (Group kvs)) = None"
| "as_steps rt (Foreign f) = foreign_array rt f"

section \<open>Node resolver (engine.js, validator.js)\<close>

text \<open>
  engine.js: \<open>resolveNode\<close> returns \<open>null\<close> on failure after writing one of two
  reports to the console; the report is the error value here. \<open>NodeNotFound\<close> carries
  the requested id, the "Failed at" path and the keys available at that level;
  \<open>NodePathIsGroup\<close> (the report "exists but is not a step array (it's a nested
  group)") carries the requested id and the keys of the value reached.
\<close>

datatype resolve_error =
    NodeNotFound string string "string list"
  | NodePathIsGroup string "string list"

function resolveLoop ::
  "runtime \<Rightarrow> string \<Rightarrow> string list \<Rightarrow> nat \<Rightarrow> jsval \<Rightarrow> resolve_error + jsval" where
  "resolveLoop rt nodeId parts i current =
     (if i < length parts then
        (case get_prop rt current (parts ! i) of
           None \<Rightarrow>
             Inl (NodeNotFound nodeId (join_dot (take (i + 1) parts)) (object_keys rt current))
         | Some v \<Rightarrow> resolveLoop rt nodeId parts (i + 1) v)
      else Inr current)"
  by pat_completeness auto
termination
  by (relation "measure (\<lambda>(rt, nodeId, parts, i, current). length parts - i)") auto

declare resolveLoop.simps [simp del]

definition resolveNode ::
  "runtime \<Rightarrow> (string \<times> node) list option \<Rightarrow> string \<Rightarrow> resolve_error + step list" where
  "resolveNode rt story_nodes nodeId =
     (let parts = split_dot nodeId in
      case story_nodes of
        None \<Rightarrow> Inl (NodeNotFound nodeId (join_dot (take 1 parts)) [])
      | Some kvs \<Rightarrow>
          (case resolveLoop rt nodeId parts 0 (Node (Group kvs)) of
             Inl err \<Rightarrow> Inl err
           | Inr current \<Rightarrow>
               (case as_steps rt current of
                  Some ss \<Rightarrow> Inr ss
                | None \<Rightarrow> Inl (NodePathIsGroup nodeId (object_keys rt current)))))"

text \<open>validator.js: its own \<open>resolveNode(nodes, nodeId)\<close>, which only returns \<open>null\<close>.\<close>

fun validator_resolveLoop :: "runtime \<Rightarrow> string list \<Rightarrow> jsval \<Rightarrow> jsval option" where
  "validator_resolveLoop rt [] current = Some current"
| "validator_resolveLoop rt (part # rest) current =
     (case get_prop rt current part of
        None \<Rightarrow> None
      | Some v \<Rightarrow> validator_resolveLoop rt rest v)"

definition validator_resolveNode ::
  "runtime \<Rightarrow> (string \<times> node) list \<Rightarrow> string \<Rightarrow> step list option" where
  "validator_resolveNode rt ns nodeId =
     (case validator_resolveLoop rt (split_dot nodeId) (Node (Group ns)) of
        None \<Rightarrow> None
      | Some current \<Rightarrow> as_steps rt current)"

text \<open>
  The value reached by following a list of segments from a value: the reading of "this
  prefix of the path resolves" used to state the resolver's contract.
\<close>

fun descend :: "runtime \<Rightarrow> jsval \<Rightarrow> string list \<Rightarrow> jsval option" where
  "descend rt v [] = Some v"
| "descend rt v (p # ps) =
     (case get_prop rt v p of None \<Rightarrow> None | Some w \<Rightarrow> descend rt w ps)"

section \<open>Validator (validator.js)\<close>

datatype severity = Error | Warning

record diagnostic =
  dtype :: severity
  message :: string
  location :: "string option"

text \<open>
  The two accumulators that \<open>validateStory\<close> passes down by reference (\<open>errors\<close>, an
  array, and \<open>referencedNodeIds\<close>, a \<open>Set\<close> kept in insertion order), and the two
  locals of \<open>validateSteps\<close>.
\<close>

record vstate =
  errors :: "diagnostic list"
  referencedNodeIds :: "string list"
  hasEnding :: bool
  visibleCharactersInNode :: "string list"

definition set_add :: "string list \<Rightarrow> string \<Rightarrow> string list" where
  "set_add xs x = (if x \<in> set xs then xs else xs @ [x])"

definition push :: "severity \<Rightarrow> string \<Rightarrow> string option \<Rightarrow> vstate \<Rightarrow> vstate" where
  "push t m loc st = st\<lparr>errors := errors st @ [\<lparr>dtype = t, message = m, location = loc\<rparr>]\<rparr>"

definition add_referenced :: "string \<Rightarrow> vstate \<Rightarrow> vstate" where
  "add_referenced nodeId st = st\<lparr>referencedNodeIds := set_add (referencedNodeIds st) nodeId\<rparr>"

definition quoted :: "string \<Rightarrow> string" where
  "quoted s = [CHR 0x22] @ s @ [CHR 0x22]"

definition definedCharacters :: "story \<Rightarrow> string list" where
  "definedCharacters story = (case characters story of None \<Rightarrow> [] | Some cs \<Rightarrow> map fst cs)"

definition definedPlaces :: "story \<Rightarrow> string list" where
  "definedPlaces story = (case places story of None \<Rightarrow> [] | Some ps \<Rightarrow> map fst ps)"

text \<open>
  \<open>obj[key]\<close> on an object whose own values are image paths (\<open>story.places\<close>, the
  \<open>poses\<close> of a character): the truthy result, as a template literal prints it.
\<close>

definition image_of :: "runtime \<Rightarrow> (string \<times> string) list \<Rightarrow> string \<Rightarrow> string option" where
  "image_of rt kvs k =
     (case object_get rt kvs k of
        None \<Rightarrow> None
      | Some (Own path) \<Rightarrow> if path = [] then None else Some path
      | Some (Inherited f) \<Rightarrow> Some (foreign_string rt f))"

text \<open>
  \<open>!character.poses[poseName]\<close> for \<open>character = story.characters[charId]\<close>, which
  the validator evaluates only for an id among the keys of \<open>story.characters\<close>.
\<close>

definition pose_missing :: "runtime \<Rightarrow> story \<Rightarrow> string \<Rightarrow> string \<Rightarrow> bool" where
  "pose_missing rt story charId poseName =
     (case characters story of
        None \<Rightarrow> False
      | Some cs \<Rightarrow>
          (case map_of cs charId of
             None \<Rightarrow> False
           | Some ch \<Rightarrow> absent (image_of rt (poses ch) poseName)))"

text \<open>The \<open>forEach\<close> over the options of a choice step.\<close>

fun validateOptions :: "string \<Rightarrow> nat \<Rightarrow> choice_option list \<Rightarrow> vstate \<Rightarrow> vstate" where
  "validateOptions stepLocation optIdx [] st = st"
| "validateOptions stepLocation optIdx (opt # rest) st =
     validateOptions stepLocation (optIdx + 1) rest
       ((if truthy (opt_nodeId opt) then add_referenced (the (opt_nodeId opt)) else id)
        ((if \<not> truthy (opt_label opt)
          then push Error (''choice option '' @ string_of_nat optIdx @ '' missing label'')
                 (Some (stepLocation @ ''.options['' @ string_of_nat optIdx @ '']''))
          else id) st))"

text \<open>The body of the loop of \<open>validateSteps\<close>: the checks for one step.\<close>

fun validateStep :: "runtime \<Rightarrow> story \<Rightarrow> string \<Rightarrow> step \<Rightarrow> vstate \<Rightarrow> vstate" where
  "validateStep rt story stepLocation MissingType st =
     push Error (''Step missing required '' @ quoted ''type'' @ '' property'') (Some stepLocation) st"
| "validateStep rt story stepLocation (Background ident) st =
     (if \<not> truthy_id ident then
        push Error (''background step missing '' @ quoted ''id'' @ '' property'') (Some stepLocation) st
      else if key_of ident \<notin> set (definedPlaces story) then
        push Error (''Background '' @ quoted (key_of ident) @ '' not defined in story.places'')
          (Some stepLocation) st
      else st)"
| "validateStep rt story stepLocation (ShowCharacter ident pose position) st =
     (let st1 =
        (if \<not> truthy_id ident then
           push Error (''show_character step missing '' @ quoted ''id'' @ '' property'')
             (Some stepLocation) st
         else if key_of ident \<notin> set (definedCharacters story) then
           push Error (''Character '' @ quoted (key_of ident) @ '' not defined in story.characters'')
             (Some stepLocation) st
         else
           (let st0 = st\<lparr>visibleCharactersInNode := set_add (visibleCharactersInNode st) (key_of ident)\<rparr>
            in case pose of
                 None \<Rightarrow> st0
               | Some p \<Rightarrow>
                   if pose_missing rt story (key_of ident) (pose_name p) then
                     push Error (''Pose '' @ quoted (pose_name p) @ '' not defined for character ''
                                  @ quoted (key_of ident)) (Some stepLocation) st0
                   else st0));
          st2 =
        (if absent pose then
           push Warning (''show_character step missing '' @ quoted ''pose'' @ '' property'')
             (Some stepLocation) st1
         else st1)
      in if absent position then
           push Warning (''show_character step missing '' @ quoted ''position'' @ '' property'')
             (Some stepLocation) st2
         else st2)"
| "validateStep rt story stepLocation (HideCharacter ident) st =
     (if \<not> truthy_id ident then
        push Error (''hide_character step missing '' @ quoted ''id'' @ '' property'')
          (Some stepLocation) st
      else st\<lparr>visibleCharactersInNode := removeAll (key_of ident) (visibleCharactersInNode st)\<rparr>)"
| "validateStep rt story stepLocation (Dialogue who txt) st =
     (let st1 =
        (if \<not> truthy who then
           push Error (''dialogue step missing '' @ quoted ''who'' @ '' property'') (Some stepLocation) st
         else if the who \<notin> set (definedCharacters story) then
           push Error (''Character '' @ quoted (the who)
                        @ '' in dialogue not defined in story.characters'') (Some stepLocation) st
         else st)
      in if \<not> truthy txt then
           push Error (''dialogue step missing '' @ quoted ''text'' @ '' property'') (Some stepLocation) st1
         else st1)"
| "validateStep rt story stepLocation (Narration txt) st =
     (if \<not> truthy txt then
        push Error (''narration step missing '' @ quoted ''text'' @ '' property'') (Some stepLocation) st
      else st)"
| "validateStep rt story stepLocation (SetVariable key v) st =
     (let st1 =
        (if \<not> truthy key then
           push Error (''set_variable step missing '' @ quoted ''key'' @ '' property'')
             (Some stepLocation) st
         else st)
      in if value_undefined v then
           push Error (''set_variable step missing '' @ quoted ''value'' @ '' property'')
             (Some stepLocation) st1
         else st1)"
| "validateStep rt story stepLocation (JumpTo nodeId) st =
     (if \<not> truthy nodeId then
        push Error (''jump_to step missing '' @ quoted ''nodeId'' @ '' property'') (Some stepLocation) st
      else add_referenced (the nodeId) st)\<lparr>hasEnding := True\<rparr>"
| "validateStep rt story stepLocation (ConditionalJump test thenNodeId elseNodeId) st =
     (let st1 =
        (if absent test then
           push Error (''conditional_jump step missing '' @ quoted ''test'' @ '' function'')
             (Some stepLocation) st
         else st);
          st2 =
        (if \<not> truthy thenNodeId then
           push Error (''conditional_jump step missing '' @ quoted ''thenNodeId'' @ '' property'')
             (Some stepLocation) st1
         else add_referenced (the thenNodeId) st1);
          st3 = (if truthy elseNodeId then add_referenced (the elseNodeId) st2 else st2)
      in st3\<lparr>hasEnding := True\<rparr>)"
| "validateStep rt story stepLocation (Choice prompt options) st =
     (let st1 =
        (if \<not> truthy prompt then
           push Warning (''choice step missing '' @ quoted ''prompt'' @ '' property'')
             (Some stepLocation) st
         else st);
          st2 =
        (if options = [] then push Error ''choice step has no options'' (Some stepLocation) st1
         else st1);
          st3 = validateOptions stepLocation 0 options st2
      in st3\<lparr>hasEnding := True\<rparr>)"
| "validateStep rt story stepLocation EndStory st = st\<lparr>hasEnding := True\<rparr>"
| "validateStep rt story stepLocation (UnknownType t) st =
     push Error (''Unknown step type: '' @ t) (Some stepLocation) st"

fun validateStepsLoop :: "runtime \<Rightarrow> story \<Rightarrow> string \<Rightarrow> nat \<Rightarrow> step list \<Rightarrow> vstate \<Rightarrow> vstate" where
  "validateStepsLoop rt story nodeId i [] st = st"
| "validateStepsLoop rt story nodeId i (s # ss) st =
     validateStepsLoop rt story nodeId (i + 1) ss
       (validateStep rt story (nodeId @ ''['' @ string_of_nat i @ '']'') s st)"

definition validateSteps :: "runtime \<Rightarrow> story \<Rightarrow> step list \<Rightarrow> string \<Rightarrow> vstate \<Rightarrow> vstate" where
  "validateSteps rt story steps nodeId st =
     (if steps = [] then
        push Warning (''Node '' @ quoted nodeId @ '' has no steps (empty)'') (Some nodeId) st
      else
        (let st1 = validateStepsLoop rt story nodeId 0 steps
                     (st\<lparr>hasEnding := False, visibleCharactersInNode := []\<rparr>)
         in if \<not> hasEnding st1 then
              push Warning (''Node '' @ quoted nodeId
                @ '' doesn't end with a jump, choice, or end_story (will stop abruptly)'')
                (Some nodeId) st1
            else st1))"

definition fullId :: "string \<Rightarrow> string \<Rightarrow> string" where
  "fullId prefix key = (if prefix \<noteq> [] then prefix @ ''.'' @ key else key)"

text \<open>
  \<open>collectNodeIds\<close> and \<open>validateNodes\<close> loop over \<open>Object.entries(nodes)\<close>; the last
  argument is the loop's accumulator. Every value of the tree is an array or an object,
  so the branch of \<open>validateNodes\<close> for any other value is never taken.
\<close>

fun collectNodeIds :: "(string \<times> node) list \<Rightarrow> string \<Rightarrow> string list \<Rightarrow> string list" where
  "collectNodeIds [] prefix ids = ids"
| "collectNodeIds ((key, Steps ss) # rest) prefix ids =
     collectNodeIds rest prefix (set_add ids (fullId prefix key))"
| "collectNodeIds ((key, Group g) # rest) prefix ids =
     collectNodeIds rest prefix
       (fold (\<lambda>i acc. set_add acc i) (collectNodeIds g (fullId prefix key) []) ids)"

fun validateNodes :: "runtime \<Rightarrow> story \<Rightarrow> (string \<times> node) list \<Rightarrow> string \<Rightarrow> vstate \<Rightarrow> vstate" where
  "validateNodes rt story [] prefix st = st"
| "validateNodes rt story ((key, Steps ss) # rest) prefix st =
     validateNodes rt story rest prefix (validateSteps rt story ss (fullId prefix key) st)"
| "validateNodes rt story ((key, Group g) # rest) prefix st =
     validateNodes rt story rest prefix (validateNodes rt story g (fullId prefix key) st)"

text \<open>The diagnostics of the two closing loops of \<open>validateStory\<close>.\<close>

definition missing_reference :: "string \<Rightarrow> diagnostic" where
  "missing_reference nodeId =
     \<lparr>dtype = Error,
      message = ''Referenced node '' @ quoted nodeId @ '' does not exist'',
      location = Some (''jump to '' @ quoted nodeId)\<rparr>"

definition unreachable_node :: "string \<Rightarrow> diagnostic" where
  "unreachable_node nodeId =
     \<lparr>dtype = Warning,
      message = ''Node '' @ quoted nodeId @ '' is defined but never referenced (unreachable)'',
      location = Some nodeId\<rparr>"

text \<open>The checks of \<open>validateStory\<close> that come before the walk over the nodes.\<close>

definition topLevelChecks :: "runtime \<Rightarrow> story \<Rightarrow> (string \<times> node) list \<Rightarrow> diagnostic list" where
  "topLevelChecks rt story ns =
     (if \<not> truthy (start story)
      then [\<lparr>dtype = Error,
             message = ''Story missing required '' @ quoted ''start'' @ '' property'',
             location = None\<rparr>]
      else []) @
     (if absent (variables story)
      then [\<lparr>dtype = Warning,
             message = ''Story missing '' @ quoted ''variables'' @ '' property'',
             location = None\<rparr>]
      else []) @
     (if truthy (start story) \<and> absent (validator_resolveNode rt ns (the (start story)))
      then [\<lparr>dtype = Error,
             message = ''Start node '' @ quoted (the (start story)) @ '' does not exist'',
             location = Some ''story.start''\<rparr>]
      else [])"

definition walkNodes :: "runtime \<Rightarrow> story \<Rightarrow> (string \<times> node) list \<Rightarrow> vstate" where
  "walkNodes rt story ns =
     validateNodes rt story ns []
       \<lparr>errors = topLevelChecks rt story ns, referencedNodeIds = [],
        hasEnding = False, visibleCharactersInNode = []\<rparr>"

definition validateStory :: "runtime \<Rightarrow> story \<Rightarrow> diagnostic list" where
  "validateStory rt story =
     (case nodes story of
        None \<Rightarrow>
          (if \<not> truthy (start story)
           then [\<lparr>dtype = Error,
                  message = ''Story missing required '' @ quoted ''start'' @ '' property'',
                  location = None\<rparr>]
           else []) @
          [\<lparr>dtype = Error,
            message = ''Story missing required '' @ quoted ''nodes'' @ '' property'',
            location = None\<rparr>]
      | Some ns \<Rightarrow>
          (let allNodeIds = collectNodeIds ns [] [];
               st = walkNodes rt story ns
           in errors st
              @ map missing_reference
                  (filter (\<lambda>nodeId. nodeId \<notin> set allNodeIds) (referencedNodeIds st))
              @ map unreachable_node
                  (filter (\<lambda>nodeId. Some nodeId \<noteq> start story
                                    \<and> nodeId \<notin> set (referencedNodeIds st)) allNodeIds)))"

text \<open>
  What the reference checks are stated about: the step sequences at the leaves of the
  tree, the node paths a step names as a target, and the set of leaf paths.
\<close>

fun leaves :: "(string \<times> node) list \<Rightarrow> step list list" where
  "leaves [] = []"
| "leaves ((key, Steps ss) # rest) = ss # leaves rest"
| "leaves ((key, Group g) # rest) = leaves g @ leaves rest"

fun step_targets :: "step \<Rightarrow> string list" where
  "step_targets (JumpTo nodeId) = (if truthy nodeId then [the nodeId] else [])"
| "step_targets (ConditionalJump test thenNodeId elseNodeId) =
     (if truthy thenNodeId then [the thenNodeId] else []) @
     (if truthy elseNodeId then [the elseNodeId] else [])"
| "step_targets (Choice prompt options) =
     concat (map (\<lambda>opt. if truthy (opt_nodeId opt) then [the (opt_nodeId opt)] else []) options)"
| "step_targets s = []"

definition targets_of :: "step list list \<Rightarrow> string set" where
  "targets_of lvs = (\<Union>ss \<in> set lvs. \<Union>s \<in> set ss. set (step_targets s))"

definition story_leaves :: "story \<Rightarrow> step list list" where
  "story_leaves story = (case nodes story of None \<Rightarrow> [] | Some ns \<Rightarrow> leaves ns)"

definition leaf_paths :: "story \<Rightarrow> string list" where
  "leaf_paths story = (case nodes story of None \<Rightarrow> [] | Some ns \<Rightarrow> collectNodeIds ns [] [])"

section \<open>Engine (engine.js)\<close>

text \<open>
  The page is modelled by the sequence of writes the engine makes to it (animation
  classes and timers are left out), the console by the sequence of reports. The three
  character elements are the slots \<open>left\<close>, \<open>center\<close> and \<open>right\<close>.
\<close>

datatype slot = Left | Center | Right

datatype command =
    SetBackground string
  | SetCharacterSprite slot string
  | HideCharacterSprite slot
  | SetDialogue string string
  | SetNarration string
  | ShowContinueIndicator
  | HideContinueIndicator
  | ShowChoiceMenu string
  | AddChoiceButton string
  | HideChoiceMenu
  | ShowTheEnd
  | UpdateDebugPanel vars

datatype log_entry =
    ResolveFailed resolve_error
  | CannotJump string
  | NodeComplete "string option"
  | UnknownStepType string
  | StepFailed "string option" exn
  | BackgroundNotFound string "string list"
  | CharacterNotFound string "string list"
  | InvalidPose string
  | PoseNotFound string string "string list"
  | InvalidPosition string
  | UnknownPosition string string
  | DialogueMissingWho
  | DialogueMissingText string
  | DialogueCharacterNotFound string
  | NarrationMissingText
  | SetVariableMissingKey
  | VariableSet string val
  | SetVariableFailed string exn
  | NoValidOptions
  | OptionMissingLabel nat
  | ChoiceFailed string exn
  | StoryEnded

text \<open>
  The fields of \<open>VisualNovelEngine\<close>. Objects that hold variables live in \<open>objects\<close>
  and are named by their index: \<open>variables (story e)\<close> is the story's own object,
  \<open>state_variables e\<close> is \<open>this.state.variables\<close>. \<open>choiceButtons\<close> are the buttons
  in the choice menu, each with the option its click listener closes over. A position
  of \<open>visibleCharacters\<close> holds \<open>null\<close> or the id last shown there. \<open>runtime\<close> is
  the JavaScript runtime the engine lives in; no method writes it.
\<close>

record engine =
  runtime :: runtime
  story :: story
  objects :: "vars list"
  state_variables :: nat
  currentNode :: "string option"
  currentStepIndex :: nat
  currentSteps :: "step list"
  waitingForInput :: bool
  visibleCharacters :: "slot \<Rightarrow> ident"
  choiceButtons :: "choice_option list"
  debugPanelHidden :: bool
  page :: "command list"
  console :: "log_entry list"

text \<open>
  How a call ends: it returns (\<open>executeStep\<close> returns \<open>shouldPause\<close>; for the methods
  that return nothing the value is \<open>False\<close>) or it throws.
\<close>

datatype outcome = Returned bool | Threw exn

type_synonym result = "outcome \<times> engine"

definition TypeError :: exn where
  "TypeError = JsError ''TypeError''"

definition say :: "command \<Rightarrow> engine \<Rightarrow> engine" where
  "say c e = e\<lparr>page := page e @ [c]\<rparr>"

definition log :: "log_entry \<Rightarrow> engine \<Rightarrow> engine" where
  "log l e = e\<lparr>console := console e @ [l]\<rparr>"

definition deref :: "vars list \<Rightarrow> nat \<Rightarrow> vars" where
  "deref objs a = (if a < length objs then objs ! a else Map.empty)"

definition state_vars :: "engine \<Rightarrow> vars" where
  "state_vars e = deref (objects e) (state_variables e)"

definition set_state_vars :: "vars \<Rightarrow> engine \<Rightarrow> engine" where
  "set_state_vars vs e = e\<lparr>objects := (objects e)[state_variables e := vs]\<rparr>"

definition setBackground :: "ident \<Rightarrow> engine \<Rightarrow> result" where
  "setBackground placeId e =
     (case places (story e) of
        None \<Rightarrow> (Threw TypeError, e)
      | Some ps \<Rightarrow>
          (case image_of (runtime e) ps (key_of placeId) of
             None \<Rightarrow> (Returned False, log (BackgroundNotFound (key_of placeId) (map fst ps)) e)
           | Some placePath \<Rightarrow> (Returned False, say (SetBackground placePath) e)))"

definition slot_of :: "string \<Rightarrow> slot option" where
  "slot_of positionName =
     (if positionName = ''left'' then Some Left
      else if positionName = ''center'' then Some Center
      else if positionName = ''right'' then Some Right
      else None)"

text \<open>
  \<open>character.poses[poseName]\<close> in \<open>showCharacter\<close>, for the \<open>character\<close> that
  \<open>story.characters[charId]\<close> gave: a character of the story or an inherited value.
\<close>

definition pose_of :: "runtime \<Rightarrow> character member \<Rightarrow> string \<Rightarrow> pose_lookup" where
  "pose_of rt ch poseName =
     (case ch of
        Own c \<Rightarrow>
          (case image_of rt (poses c) poseName of
             None \<Rightarrow> PoseFalsy (map fst (poses c))
           | Some imagePath \<Rightarrow> PoseTruthy imagePath)
      | Inherited f \<Rightarrow> foreign_pose rt f poseName)"

definition showCharacter ::
  "ident \<Rightarrow> character_pose option \<Rightarrow> character_position option \<Rightarrow> engine \<Rightarrow> result" where
  "showCharacter charId pose position e =
     (case characters (story e) of
        None \<Rightarrow> (Threw TypeError, e)
      | Some cs \<Rightarrow>
          (case object_get (runtime e) cs (key_of charId) of
             None \<Rightarrow> (Returned False, log (CharacterNotFound (key_of charId) (map fst cs)) e)
           | Some ch \<Rightarrow>
               if absent pose \<or> pose_name (the pose) = [] then
                 (Returned False, log (InvalidPose (key_of charId)) e)
               else
                 (let poseName = pose_name (the pose)
                  in case pose_of (runtime e) ch poseName of
                       PoseThrows \<Rightarrow> (Threw TypeError, e)
                     | PoseFalsy keys \<Rightarrow>
                         (Returned False, log (PoseNotFound poseName (key_of charId) keys) e)
                     | PoseTruthy imagePath \<Rightarrow>
                         if absent position \<or> position_name (the position) = [] then
                           (Returned False, log (InvalidPosition (key_of charId)) e)
                         else
                           (case slot_of (position_name (the position)) of
                              None \<Rightarrow>
                                (Returned False,
                                 log (UnknownPosition (position_name (the position))
                                        (key_of charId)) e)
                            | Some sl \<Rightarrow>
                                (Returned False,
                                 (say (SetCharacterSprite sl imagePath) e)
                                   \<lparr>visibleCharacters := (visibleCharacters e)(sl := charId)\<rparr>)))))"

text \<open>
  \<open>hideCharacter\<close> visits the positions in the order left, center, right; a position
  matches when what it holds \<open>=== charId\<close>, and is set to \<open>null\<close>.
\<close>

definition hideAt :: "ident \<Rightarrow> slot \<Rightarrow> engine \<Rightarrow> engine" where
  "hideAt charId sl e =
     (if visibleCharacters e sl = charId then
        (say (HideCharacterSprite sl) e)\<lparr>visibleCharacters := (visibleCharacters e)(sl := Null)\<rparr>
      else e)"

definition hideCharacter :: "ident \<Rightarrow> engine \<Rightarrow> result" where
  "hideCharacter charId e =
     (Returned False, hideAt charId Right (hideAt charId Center (hideAt charId Left e)))"

definition showDialogue :: "string option \<Rightarrow> string option \<Rightarrow> engine \<Rightarrow> result" where
  "showDialogue who txt e =
     (if \<not> truthy who then (Returned False, log DialogueMissingWho e)
      else if \<not> truthy txt then (Returned False, log (DialogueMissingText (the who)) e)
      else
        (case characters (story e) of
           None \<Rightarrow> (Threw TypeError, e)
         | Some cs \<Rightarrow>
             (let ch = object_get (runtime e) cs (the who);
                  e1 = (if absent ch then log (DialogueCharacterNotFound (the who)) e else e);
                  characterName =
                    (case ch of
                       None \<Rightarrow> the who
                     | Some (Own c) \<Rightarrow> name c
                     | Some (Inherited f) \<Rightarrow> foreign_name (runtime e) f)
              in (Returned False,
                  say ShowContinueIndicator
                    ((say (SetDialogue characterName (the txt)) e1)\<lparr>waitingForInput := True\<rparr>)))))"

definition showNarration :: "string option \<Rightarrow> engine \<Rightarrow> result" where
  "showNarration txt e =
     (if \<not> truthy txt then (Returned False, log NarrationMissingText e)
      else
        (Returned False,
         say ShowContinueIndicator ((say (SetNarration (the txt)) e)\<lparr>waitingForInput := True\<rparr>)))"

definition updateDebugPanel :: "engine \<Rightarrow> engine" where
  "updateDebugPanel e = say (UpdateDebugPanel (state_vars e)) e"

definition setVariable :: "string option \<Rightarrow> step_value \<Rightarrow> engine \<Rightarrow> result" where
  "setVariable key v e =
     (if \<not> truthy key then (Returned False, log SetVariableMissingKey e)
      else
        (case (case v of Compute f \<Rightarrow> f (state_vars e) | Literal c \<Rightarrow> Inr c) of
           Inl err \<Rightarrow> (Threw err, log (SetVariableFailed (the key) err) e)
         | Inr c \<Rightarrow>
             (let e1 = log (VariableSet (the key) c)
                         (set_state_vars ((state_vars e)(the key \<mapsto> c)) e)
              in (Returned False, if \<not> debugPanelHidden e1 then updateDebugPanel e1 else e1))))"

text \<open>The \<open>forEach\<close> of \<open>showChoices\<close>: one button for each option that has a label.\<close>

fun createButtons :: "nat \<Rightarrow> choice_option list \<Rightarrow> engine \<Rightarrow> engine" where
  "createButtons index [] e = e"
| "createButtons index (opt # rest) e =
     createButtons (index + 1) rest
       (if \<not> truthy (opt_label opt) then log (OptionMissingLabel index) e
        else (say (AddChoiceButton (the (opt_label opt))) e)
               \<lparr>choiceButtons := choiceButtons e @ [opt]\<rparr>)"

definition showChoices :: "string option \<Rightarrow> choice_option list \<Rightarrow> engine \<Rightarrow> result" where
  "showChoices prompt options e =
     (if options = [] then (Returned False, log NoValidOptions e)
      else
        (let e1 = (say (ShowChoiceMenu (if truthy prompt then the prompt else ''Choose:'')) e)
                    \<lparr>choiceButtons := []\<rparr>;
             e2 = createButtons 0 options e1
         in (Returned False, e2\<lparr>waitingForInput := True\<rparr>)))"

definition endStory :: "engine \<Rightarrow> result" where
  "endStory e = (Returned False, say HideContinueIndicator (say ShowTheEnd (log StoryEnded e)))"

text \<open>\<open>this.f(...); return b\<close> inside the \<open>switch\<close> of \<open>executeStep\<close>.\<close>

definition then_return :: "bool \<Rightarrow> result \<Rightarrow> result" where
  "then_return b r = (case r of (Returned u, e) \<Rightarrow> (Returned b, e) | (Threw err, e) \<Rightarrow> (Threw err, e))"

text \<open>The \<open>catch\<close> clause of \<open>executeStep\<close>: report the error and throw it again.\<close>

definition catch_rethrow :: "result \<Rightarrow> result" where
  "catch_rethrow r =
     (case r of
        (Returned b, e) \<Rightarrow> (Returned b, e)
      | (Threw err, e) \<Rightarrow> (Threw err, log (StepFailed (currentNode e) err) e))"

text \<open>
  \<open>executeSteps\<close>, \<open>executeStep\<close> and \<open>jumpToNode\<close> call each other, and a story whose
  jumps form a cycle never comes back from them: they are the three entry points of one
  partial function, which is \<open>None\<close> when the call does not return.
\<close>

datatype call = ExecuteSteps | ExecuteStep step | JumpToNode string

partial_function (option) run :: "call \<Rightarrow> engine \<Rightarrow> result option" where
  "run c e =
     (case c of
        ExecuteSteps \<Rightarrow>
          (if currentStepIndex e < length (currentSteps e) then
             Option.bind (run (ExecuteStep (currentSteps e ! currentStepIndex e)) e)
               (\<lambda>r. case r of
                  (Threw err, e1) \<Rightarrow> Some (Threw err, e1)
                | (Returned shouldPause, e1) \<Rightarrow>
                    if shouldPause then Some (Returned False, e1)
                    else run ExecuteSteps (e1\<lparr>currentStepIndex := currentStepIndex e1 + 1\<rparr>))
           else Some (Returned False, log (NodeComplete (currentNode e)) e))
      | ExecuteStep step \<Rightarrow>
          Option.bind
            (case step of
               Background ident \<Rightarrow> Some (then_return False (setBackground ident e))
             | ShowCharacter ident pose position \<Rightarrow>
                 Some (then_return False (showCharacter ident pose position e))
             | HideCharacter ident \<Rightarrow> Some (then_return False (hideCharacter ident e))
             | Dialogue who txt \<Rightarrow> Some (then_return True (showDialogue who txt e))
             | Narration txt \<Rightarrow> Some (then_return True (showNarration txt e))
             | SetVariable key v \<Rightarrow> Some (then_return False (setVariable key v e))
             | JumpTo nodeId \<Rightarrow>
                 (case nodeId of
                    None \<Rightarrow> Some (Threw TypeError, e)
                  | Some n \<Rightarrow>
                      Option.bind (run (JumpToNode n) e) (\<lambda>r. Some (then_return True r)))
             | ConditionalJump test thenNodeId elseNodeId \<Rightarrow>
                 (case test of
                    None \<Rightarrow> Some (Threw TypeError, e)
                  | Some t \<Rightarrow>
                      (case t (state_vars e) of
                         Inl err \<Rightarrow> Some (Threw err, e)
                       | Inr testResult \<Rightarrow>
                           if testResult \<and> truthy thenNodeId then
                             Option.bind (run (JumpToNode (the thenNodeId)) e)
                               (\<lambda>r. Some (then_return True r))
                           else if \<not> testResult \<and> truthy elseNodeId then
                             Option.bind (run (JumpToNode (the elseNodeId)) e)
                               (\<lambda>r. Some (then_return True r))
                           else Some (Returned False, e)))
             | Choice prompt options \<Rightarrow> Some (then_return True (showChoices prompt options e))
             | EndStory \<Rightarrow> Some (then_return True (endStory e))
             | UnknownType t \<Rightarrow> Some (Returned False, log (UnknownStepType t) e)
             | MissingType \<Rightarrow> Some (Returned False, log (UnknownStepType ''undefined'') e))
            (\<lambda>r. Some (catch_rethrow r))
      | JumpToNode nodeId \<Rightarrow>
          (case resolveNode (runtime e) (nodes (story e)) nodeId of
             Inl err \<Rightarrow> Some (Returned False, log (CannotJump nodeId) (log (ResolveFailed err) e))
           | Inr steps \<Rightarrow>
               run ExecuteSteps
                 (e\<lparr>currentNode := Some nodeId, currentSteps := steps, currentStepIndex := 0\<rparr>)))"

declare run.simps [code]

definition executeSteps :: "engine \<Rightarrow> result option" where
  "executeSteps e = run ExecuteSteps e"

definition executeStep :: "step \<Rightarrow> engine \<Rightarrow> result option" where
  "executeStep step e = run (ExecuteStep step) e"

definition jumpToNode :: "string \<Rightarrow> engine \<Rightarrow> result option" where
  "jumpToNode nodeId e = run (JumpToNode nodeId) e"

definition advance :: "engine \<Rightarrow> result option" where
  "advance e =
     (if waitingForInput e then
        executeSteps
          ((say HideContinueIndicator (e\<lparr>waitingForInput := False\<rparr>))
             \<lparr>currentStepIndex := currentStepIndex e + 1\<rparr>)
      else Some (Returned False, e))"

text \<open>
  The click listener of the button that \<open>showChoices\<close> creates for an option:
  \<open>runEffect\<close> is its first statement (\<open>if (effectFn) effectFn(this.state)\<close>),
  \<open>catch_choice\<close> its \<open>catch\<close> clause.
\<close>

text \<open>The label on a button (a button is made only for an option with a label).\<close>

definition label_text :: "string option \<Rightarrow> string" where
  "label_text l = (case l of None \<Rightarrow> [] | Some s \<Rightarrow> s)"

definition runEffect :: "choice_option \<Rightarrow> engine \<Rightarrow> exn option \<times> engine" where
  "runEffect opt e =
     (case opt_effectFn opt of
        None \<Rightarrow> (None, e)
      | Some effectFn \<Rightarrow>
          (case effectFn (state_vars e) of (x, vs) \<Rightarrow> (x, set_state_vars vs e)))"

definition catch_choice :: "choice_option \<Rightarrow> result option \<Rightarrow> result option" where
  "catch_choice opt r =
     Option.bind r
       (\<lambda>r. case r of
          (Returned b, e) \<Rightarrow> Some (Returned False, e)
        | (Threw err, e) \<Rightarrow> Some (Threw err, log (ChoiceFailed (label_text (opt_label opt)) err) e))"

definition choiceClick :: "choice_option \<Rightarrow> engine \<Rightarrow> result option" where
  "choiceClick opt e =
     (case runEffect opt e of
        (Some err, e1) \<Rightarrow> Some (Threw err, log (ChoiceFailed (label_text (opt_label opt)) err) e1)
      | (None, e1) \<Rightarrow>
          catch_choice opt
            (let e2 = say HideChoiceMenu e1
             in if truthy (opt_nodeId opt) then jumpToNode (the (opt_nodeId opt)) e2
                else executeSteps (e2\<lparr>currentStepIndex := currentStepIndex e2 + 1\<rparr>)))"

text \<open>A click on the button at position \<open>i\<close> of the choice menu.\<close>

definition clickChoiceButton :: "nat \<Rightarrow> engine \<Rightarrow> result option" where
  "clickChoiceButton i e =
     (if i < length (choiceButtons e) then choiceClick (choiceButtons e ! i) e
      else Some (Returned False, e))"

definition toggleDebugPanel :: "engine \<Rightarrow> engine" where
  "toggleDebugPanel e =
     (let e1 = e\<lparr>debugPanelHidden := \<not> debugPanelHidden e\<rparr>
      in if \<not> debugPanelHidden e1 then updateDebugPanel e1 else e1)"

text \<open>
  The constructor: the state gets a fresh object holding a copy of the story's
  variables (\<open>{ ...storyData.variables }\<close>); the debug panel starts hidden; \<open>init\<close>
  jumps to the start node. The validation report that the constructor prints is
  \<open>validateStory\<close> above and has no effect on the engine.
\<close>

definition newEngine :: "runtime \<Rightarrow> vars list \<Rightarrow> story \<Rightarrow> engine" where
  "newEngine rt objs storyData =
     \<lparr>runtime = rt, story = storyData,
      objects = objs @ [case variables storyData of None \<Rightarrow> Map.empty | Some a \<Rightarrow> deref objs a],
      state_variables = length objs,
      currentNode = None, currentStepIndex = 0, currentSteps = [], waitingForInput = False,
      visibleCharacters = (\<lambda>sl. Null), choiceButtons = [], debugPanelHidden = True,
      page = [], console = []\<rparr>"

definition init :: "engine \<Rightarrow> result option" where
  "init e = (case start (story e) of None \<Rightarrow> Some (Threw TypeError, e) | Some n \<Rightarrow> jumpToNode n e)"

definition construct :: "runtime \<Rightarrow> vars list \<Rightarrow> story \<Rightarrow> result option" where
  "construct rt objs storyData = init (newEngine rt objs storyData)"

section \<open>Playing a story\<close>

text \<open>
  The page delivers one event at a time to the engine: a click outside the choice
  buttons (\<open>advance\<close>), a click on a choice button, or the key that toggles the
  debug panel. An event is delivered to the state the previous call left behind,
  whether that call returned or threw.
\<close>

datatype event = Advance | ClickChoice nat | ToggleDebug

definition after :: "result option \<Rightarrow> (engine \<Rightarrow> result option) \<Rightarrow> result option" where
  "after r f = (case r of None \<Rightarrow> None | Some (out, e) \<Rightarrow> f e)"

fun deliver :: "event \<Rightarrow> engine \<Rightarrow> result option" where
  "deliver Advance e = advance e"
| "deliver (ClickChoice i) e = clickChoiceButton i e"
| "deliver ToggleDebug e = Some (Returned False, toggleDebugPanel e)"

fun play :: "event list \<Rightarrow> result option \<Rightarrow> result option" where
  "play [] r = r"
| "play (ev # evs) r = play evs (after r (deliver ev))"

definition observe :: "(engine \<Rightarrow> 'a) \<Rightarrow> result option \<Rightarrow> 'a option" where
  "observe f r = (case r of None \<Rightarrow> None | Some (out, e) \<Rightarrow> Some (f e))"

definition lookup_var :: "string \<Rightarrow> engine \<Rightarrow> val option" where
  "lookup_var k e = state_vars e k"

text \<open>The state in which the walk of a node starts after a jump to it.\<close>

definition enter :: "string \<Rightarrow> step list \<Rightarrow> engine \<Rightarrow> engine" where
  "enter nodeId steps e = e\<lparr>currentNode := Some nodeId, currentSteps := steps, currentStepIndex := 0\<rparr>"

text \<open>What \<open>executeStep\<close> makes of the result of the jump it called.\<close>

definition jump_result :: "result option \<Rightarrow> result option" where
  "jump_result r = Option.bind r (\<lambda>r. Some (catch_rethrow (then_return True r)))"

section \<open>A runtime for the examples\<close>

text \<open>
  The keys of the object a builder of story-format.js returns, and a runtime to run
  the examples in: every plain object inherits the members of \<open>Object.prototype\<close>
  and every array those of \<open>Array.prototype\<close>, under the names ECMAScript gives
  them. It says what these values and the elements of a step array are as a whole
  (their keys, their text, whether they are arrays); it does not follow the members
  inside them, which no example reaches.
\<close>

fun step_keys :: "step \<Rightarrow> string list" where
  "step_keys (Background i) = [''type'', ''id'']"
| "step_keys (ShowCharacter i p q) = [''type'', ''id'', ''pose'', ''position'']"
| "step_keys (HideCharacter i) = [''type'', ''id'']"
| "step_keys (Dialogue who txt) = [''type'', ''who'', ''text'']"
| "step_keys (Narration txt) = [''type'', ''text'']"
| "step_keys (SetVariable key v) = [''type'', ''key'', ''value'']"
| "step_keys (JumpTo nodeId) = [''type'', ''nodeId'']"
| "step_keys (ConditionalJump t thenNodeId elseNodeId) =
     [''type'', ''test'', ''thenNodeId'', ''elseNodeId'']"
| "step_keys (Choice prompt options) = [''type'', ''prompt'', ''options'']"
| "step_keys EndStory = [''type'']"
| "step_keys (UnknownType t) = [''type'']"
| "step_keys MissingType = []"

definition object_prototype_functions :: "string list" where
  "object_prototype_functions =
     [''__defineGetter__'', ''__defineSetter__'', ''hasOwnProperty'', ''__lookupGetter__'',
      ''__lookupSetter__'', ''isPrototypeOf'', ''propertyIsEnumerable'', ''toString'',
      ''valueOf'', ''toLocaleString'']"

definition array_prototype_functions :: "string list" where
  "array_prototype_functions =
     [''at'', ''concat'', ''copyWithin'', ''fill'', ''find'', ''findIndex'', ''findLast'',
      ''findLastIndex'', ''lastIndexOf'', ''pop'', ''push'', ''reverse'', ''shift'',
      ''unshift'', ''slice'', ''sort'', ''splice'', ''includes'', ''indexOf'', ''join'',
      ''keys'', ''entries'', ''values'', ''forEach'', ''filter'', ''flat'', ''flatMap'',
      ''map'', ''every'', ''some'', ''reduce'', ''reduceRight'', ''toReversed'',
      ''toSorted'', ''toSpliced'', ''with'']"

fun example_string :: "foreign \<Rightarrow> string" where
  "example_string (Function n) = ''function '' @ n @ ''() { [native code] }''"
| "example_string (Prototype n) = (if n = ''Array'' then [] else ''[object Object]'')"
| "example_string (Element s) = ''[object Object]''"
| "example_string (Length n) = string_of_nat n"

fun example_name :: "foreign \<Rightarrow> string" where
  "example_name (Function n) = n"
| "example_name f = []"

fun example_array :: "foreign \<Rightarrow> step list option" where
  "example_array (Prototype n) = (if n = ''Array'' then Some [] else None)"
| "example_array f = None"

fun example_keys :: "foreign \<Rightarrow> string list" where
  "example_keys (Element s) = step_keys s"
| "example_keys f = []"

definition example_runtime :: runtime where
  "example_runtime =
     \<lparr>object_inherits =
        (\<lambda>k. if k = ''constructor'' then Some (Function ''Object'')
             else if k = ''__proto__'' then Some (Prototype ''Object'')
             else if k \<in> set object_prototype_functions then Some (Function k)
             else None),
      array_inherits =
        (\<lambda>k. if k = ''constructor'' then Some (Function ''Array'')
             else if k = ''__proto__'' then Some (Prototype ''Array'')
             else if k \<in> set array_prototype_functions \<or> k \<in> set object_prototype_functions
               then Some (Function k)
             else None),
      foreign_member = (\<lambda>f k. None),
      foreign_array = example_array,
      foreign_keys = example_keys,
      foreign_string = example_string,
      foreign_pose = (\<lambda>f k. PoseThrows),
      foreign_name = example_name\<rparr>"

section \<open>Example stories\<close>

definition dangling_story :: story where
  "dangling_story =
     \<lparr>start = Some ''Start'', variables = Some 0,
      nodes = Some [(''Start'', Steps [Narration (Some ''Hi''), JumpTo (Some ''Nowhere'')]),
                    (''Park'', Group [(''Orphan'', Steps [EndStory])])],
      characters = None, places = None\<rparr>"

definition skip_story :: story where
  "skip_story =
     \<lparr>start = Some ''Start'', variables = Some 0,
      nodes = Some [(''Start'',
                     Steps [Choice (Some ''Pick'') [ChoiceOption (Some ''A'') (Some ''NodeA'') None],
                            Narration (Some ''skipped'')]),
                    (''NodeA'', Steps [EndStory])],
      characters = None, places = None\<rparr>"

definition ending_story :: story where
  "ending_story =
     \<lparr>start = Some ''Start'', variables = Some 0,
      nodes = Some [(''Start'',
                     Steps [Choice (Some ''Pick'') [ChoiceOption (Some ''Go'') None None],
                            EndStory,
                            SetVariable (Some ''x'') (Literal (VNum 1))])],
      characters = None, places = None\<rparr>"

definition empty_target_story :: story where
  "empty_target_story =
     \<lparr>start = Some ''Start'', variables = Some 0,
      nodes = Some [(''Start'',
                     Steps [Choice (Some ''Pick'') [ChoiceOption (Some ''Go'') (Some []) None],
                            Narration (Some ''still here'')]),
                    ([], Steps [Narration (Some ''jumped'')])],
      characters = None, places = None\<rparr>"

definition lost_story :: story where
  "lost_story =
     \<lparr>start = Some ''Start'', variables = Some 0,
      nodes = Some [(''Start'', Steps [JumpTo (Some ''Nowhere''), Narration (Some ''after'')])],
      characters = None, places = None\<rparr>"

text \<open>
  The content of the story's own variables object, and the relation between two engine
  states that differ at most in the engine's fields and in the state's own object.
\<close>

definition original_variables :: "engine \<Rightarrow> vars" where
  "original_variables e =
     (case variables (story e) of None \<Rightarrow> Map.empty | Some a \<Rightarrow> deref (objects e) a)"

text \<open>A story whose steps change variables.\<close>

definition add_to_score :: "int \<Rightarrow> compute_value" where
  "add_to_score k vs =
     (case vs ''score'' of Some (VNum n) \<Rightarrow> Inr (VNum (n + k)) | _ \<Rightarrow> Inl (JsError ''score is not a number''))"

definition score_story :: story where
  "score_story =
     \<lparr>start = Some ''Start'', variables = Some 0,
      nodes = Some [(''Start'',
                     Steps [SetVariable (Some ''score'') (Compute (add_to_score 5)),
                            Narration (Some ''A''),
                            SetVariable (Some ''bonus'') (Literal (VBool True)),
                            Narration (Some ''B'')])],
      characters = None, places = None\<rparr>"

definition keeps :: "engine \<Rightarrow> engine \<Rightarrow> bool" where
  "keeps e e' \<longleftrightarrow>
     story e' = story e \<and> state_variables e' = state_variables e \<and>
     length (objects e') = length (objects e) \<and>
     (\<forall>a. a \<noteq> state_variables e \<longrightarrow> deref (objects e') a = deref (objects e) a)"

text \<open>A story with choice effects, and the engine waiting at its choice.\<close>

definition paint :: "string \<Rightarrow> effect_fn" where
  "paint c vs = (None, vs(''color'' \<mapsto> VStr c))"

definition is_color :: "string \<Rightarrow> test_fn" where
  "is_color c vs = Inr (vs ''color'' = Some (VStr c))"

definition choice_story :: story where
  "choice_story =
     \<lparr>start = Some ''Start'', variables = Some 0,
      nodes = Some [(''Start'',
                     Steps [Choice (Some ''Pick'')
                              [ChoiceOption (Some ''Red'') None (Some (paint ''red'')),
                               ChoiceOption (Some ''Leave'') (Some ''Exit'') (Some (paint ''blue''))],
                            Narration (Some ''done'')]),
                    (''Exit'', Steps [ConditionalJump (Some (is_color ''blue'')) (Some ''Blue'') (Some ''Other'')]),
                    (''Blue'', Steps [Narration (Some ''blue it is'')]),
                    (''Other'', Steps [Narration (Some ''something else'')])],
      characters = None, places = None\<rparr>"

definition choice_engine :: engine where
  "choice_engine =
     (newEngine example_runtime [Map.empty] choice_story)
       \<lparr>currentNode := Some ''Start'',
        currentSteps := [Choice (Some ''Pick'')
                           [ChoiceOption (Some ''Red'') None (Some (paint ''red'')),
                            ChoiceOption (Some ''Leave'') (Some ''Exit'') (Some (paint ''blue''))],
                         Narration (Some ''done'')],
        waitingForInput := True\<rparr>"

text \<open>Author functions that throw, and a story with a character and a place.\<close>

definition failing_compute :: compute_value where
  "failing_compute vs = Inl (JsError ''boom'')"

definition failing_effect :: effect_fn where
  "failing_effect vs = (Some (JsError ''boom''), vs)"

definition stage_story :: story where
  "stage_story =
     \<lparr>start = Some ''Start'', variables = Some 0,
      nodes = Some [(''Start'', Steps [Background (Id ''moon''), Narration (Some ''next'')])],
      characters = Some [(''al'', \<lparr>name = ''Al'', poses = [(''happy'', ''al_happy.png'')]\<rparr>)],
      places = Some [(''park'', ''park.png'')]\<rparr>"

definition stage_engine :: engine where
  "stage_engine =
     (newEngine example_runtime [Map.empty] stage_story)
       \<lparr>currentNode := Some ''Start'',
        currentSteps := [Background (Id ''moon''), Narration (Some ''next'')]\<rparr>"

text \<open>Engine states used to try the walk at a given cursor.\<close>

definition fallthrough_engine :: "bool \<Rightarrow> string option \<Rightarrow> string option \<Rightarrow> engine" where
  "fallthrough_engine b thenNodeId elseNodeId =
     (newEngine example_runtime [Map.empty] lost_story)
       \<lparr>currentNode := Some ''Start'',
        currentSteps := [ConditionalJump (Some (\<lambda>vs. Inr b)) thenNodeId elseNodeId,
                         Narration (Some ''next'')]\<rparr>"

definition jump_engine :: engine where
  "jump_engine =
     (newEngine example_runtime [Map.empty] skip_story)
       \<lparr>currentNode := Some ''Start'',
        currentSteps := [Narration (Some ''one''), Narration (Some ''two''), JumpTo (Some ''NodeA'')],
        currentStepIndex := 2\<rparr>"

section \<open>Properties of the resolver\<close>

lemma resolveLoop_descend:
  "i \<le> j \<Longrightarrow> j \<le> length parts \<Longrightarrow> descend rt current (drop i (take j parts)) = Some v \<Longrightarrow>
   resolveLoop rt nodeId parts i current = resolveLoop rt nodeId parts j v"
proof (induction rt nodeId parts i current rule: resolveLoop.induct)
  case (1 rt nodeId parts i current)
  show ?case
  proof (cases "i = j")
    case True
    with "1.prems" show ?thesis by simp
  next
    case False
    with "1.prems" have lt: "i < j" and il: "i < length parts" by simp_all
    then have "i < length (take j parts)" by simp
    then have "drop i (take j parts) = take j parts ! i # drop (Suc i) (take j parts)"
      by (rule Cons_nth_drop_Suc [symmetric])
    with lt have dr: "drop i (take j parts) = parts ! i # drop (i + 1) (take j parts)"
      by simp
    from "1.prems"(3) obtain w where
      w: "get_prop rt current (parts ! i) = Some w"
      and dw: "descend rt w (drop (i + 1) (take j parts)) = Some v"
      unfolding dr by (auto split: option.splits)
    have "resolveLoop rt nodeId parts (i + 1) w = resolveLoop rt nodeId parts j v"
      using "1.IH" [OF il w _ "1.prems"(2) dw] lt by simp
    then show ?thesis
      using il w by (subst resolveLoop.simps) simp
  qed
qed

lemma resolveLoop_absent:
  assumes "i < length parts"
    and "descend rt root (take i parts) = Some v"
    and "get_prop rt v (parts ! i) = None"
  shows "resolveLoop rt nodeId parts 0 root =
    Inl (NodeNotFound nodeId (join_dot (take (Suc i) parts)) (object_keys rt v))"
proof -
  have "resolveLoop rt nodeId parts 0 root = resolveLoop rt nodeId parts i v"
    using assms by (intro resolveLoop_descend) simp_all
  also have "\<dots> = Inl (NodeNotFound nodeId (join_dot (take (Suc i) parts)) (object_keys rt v))"
    using assms by (subst resolveLoop.simps) simp
  finally show ?thesis .
qed

lemma resolveLoop_complete:
  assumes "descend rt root parts = Some v"
  shows "resolveLoop rt nodeId parts 0 root = Inr v"
proof -
  have "resolveLoop rt nodeId parts 0 root = resolveLoop rt nodeId parts (length parts) v"
    using assms by (intro resolveLoop_descend) simp_all
  also have "\<dots> = Inr v"
    by (subst resolveLoop.simps) simp
  finally show ?thesis .
qed

lemma validator_resolveLoop_descend: "validator_resolveLoop rt parts current = descend rt current parts"
  by (induction parts arbitrary: current) (auto split: option.splits)

lemma descend_append:
  "descend rt v (ps @ qs) = (case descend rt v ps of None \<Rightarrow> None | Some w \<Rightarrow> descend rt w qs)"
  by (induction ps arbitrary: v) (auto split: option.splits)

lemma descend_absent:
  assumes "i < length parts"
    and "descend rt root (take i parts) = Some v"
    and "get_prop rt v (parts ! i) = None"
  shows "descend rt root parts = None"
proof -
  have "parts = take i parts @ parts ! i # drop (Suc i) parts"
    using assms(1) by (simp add: id_take_nth_drop)
  then have "descend rt root parts = descend rt root (take i parts @ parts ! i # drop (Suc i) parts)"
    by simp
  also have "\<dots> = None"
    using assms(2,3) by (simp only: descend_append) simp
  finally show ?thesis .
qed

lemma split_dot_not_Nil: "split_dot s \<noteq> []"
  by (cases s) (auto split: list.splits)

lemma join_split_dot: "join_dot (split_dot s) = s"
proof (induction s)
  case Nil
  show ?case by simp
next
  case (Cons c cs)
  obtain p ps where sp: "split_dot cs = p # ps"
    using split_dot_not_Nil [of cs] by (cases "split_dot cs") auto
  with Cons show ?case by (cases ps) auto
qed

text \<open>
  C2, as the code has it. When the first \<open>i\<close> segments of the path resolve and
  segment \<open>i\<close> is absent (the lookup finds nothing, own or inherited), the engine's
  resolver fails with \<open>NodeNotFound\<close> carrying the requested path and the dot-joined
  segments up to and including the absent one (not the valid prefix before it), with
  the keys available at that level. When every segment resolves and the final value is
  a group, or any other value that is not an array, it fails with the distinct
  \<open>NodePathIsGroup\<close>. The validator's resolver returns \<open>null\<close> in both cases.
\<close>

theorem resolveNode_failure_reports:
  "(i < length (split_dot nodeId) \<and>
    descend rt (Node (Group kvs)) (take i (split_dot nodeId)) = Some v \<and>
    get_prop rt v (split_dot nodeId ! i) = None \<longrightarrow>
      resolveNode rt (Some kvs) nodeId =
        Inl (NodeNotFound nodeId (join_dot (take (Suc i) (split_dot nodeId))) (object_keys rt v)) \<and>
      validator_resolveNode rt kvs nodeId = None) \<and>
   (descend rt (Node (Group kvs)) (split_dot nodeId) = Some (Node (Group g)) \<longrightarrow>
      resolveNode rt (Some kvs) nodeId = Inl (NodePathIsGroup nodeId (map fst g)) \<and>
      validator_resolveNode rt kvs nodeId = None) \<and>
   (descend rt (Node (Group kvs)) (split_dot nodeId) = Some w \<and> as_steps rt w = None \<longrightarrow>
      resolveNode rt (Some kvs) nodeId = Inl (NodePathIsGroup nodeId (object_keys rt w)) \<and>
      validator_resolveNode rt kvs nodeId = None)"
  by (auto simp: resolveNode_def validator_resolveNode_def validator_resolveLoop_descend
      resolveLoop_absent resolveLoop_complete descend_absent)

lemma string_of_nat_0: "string_of_nat 0 = ''0''"
  by code_simp

lemmas lookup_defs = example_runtime_def object_get_def array_get_def image_of_def
  object_prototype_functions_def array_prototype_functions_def string_of_nat_0

theorem resolveNode_failure_reports_witness:
  "resolveNode example_runtime (Some [(''Park'', Group [(''WithBob'', Steps [EndStory])])])
     ''Park.Nope.Deep'' =
     Inl (NodeNotFound ''Park.Nope.Deep'' ''Park.Nope'' [''WithBob'']) \<and>
   resolveNode example_runtime (Some [(''Park'', Group [(''WithBob'', Steps [EndStory])])])
     ''Park'' =
     Inl (NodePathIsGroup ''Park'' [''WithBob'']) \<and>
   resolveNode example_runtime (Some [(''Park'', Group [(''WithBob'', Steps [EndStory])])])
     ''Park.WithBob.0'' =
     Inl (NodePathIsGroup ''Park.WithBob.0'' [''type'']) \<and>
   resolveNode example_runtime (Some [(''Park'', Group [(''WithBob'', Steps [EndStory])])])
     ''constructor'' =
     Inl (NodePathIsGroup ''constructor'' [])"
  using resolveNode_failure_reports [where rt = example_runtime and i = 1
      and nodeId = "''Park.Nope.Deep''"
      and kvs = "[(''Park'', Group [(''WithBob'', Steps [EndStory])])]"
      and v = "Node (Group [(''WithBob'', Steps [EndStory])])"
      and g = "[]" and w = "Node (Group [])"]
    resolveNode_failure_reports [where rt = example_runtime and i = 0
      and nodeId = "''Park''"
      and kvs = "[(''Park'', Group [(''WithBob'', Steps [EndStory])])]"
      and v = "Node (Group [])"
      and g = "[(''WithBob'', Steps [EndStory])]"
      and w = "Node (Group [(''WithBob'', Steps [EndStory])])"]
    resolveNode_failure_reports [where rt = example_runtime and i = 0
      and nodeId = "''Park.WithBob.0''"
      and kvs = "[(''Park'', Group [(''WithBob'', Steps [EndStory])])]"
      and v = "Node (Group [])" and g = "[]"
      and w = "Foreign (Element EndStory)"]
    resolveNode_failure_reports [where rt = example_runtime and i = 0
      and nodeId = "''constructor''"
      and kvs = "[(''Park'', Group [(''WithBob'', Steps [EndStory])])]"
      and v = "Node (Group [])" and g = "[]"
      and w = "Foreign (Function ''Object'')"]
  by (simp add: lookup_defs)

text \<open>
  The report at a missing segment names the failing path, not the prefix that did
  resolve: for \<open>Park.Nope\<close> in a tree that has \<open>Park\<close>, the prefix \<open>Park\<close> resolves
  and the resolver reports \<open>Park.Nope\<close>.
\<close>

theorem resolveNode_prefix_counterexample:
  "descend example_runtime (Node (Group [(''Park'', Group [(''WithBob'', Steps [EndStory])])]))
     [''Park''] =
     Some (Node (Group [(''WithBob'', Steps [EndStory])])) \<and>
   get_prop example_runtime (Node (Group [(''WithBob'', Steps [EndStory])])) ''Nope'' = None \<and>
   resolveNode example_runtime (Some [(''Park'', Group [(''WithBob'', Steps [EndStory])])])
     ''Park.Nope'' =
     Inl (NodeNotFound ''Park.Nope'' ''Park.Nope'' [''WithBob'']) \<and>
   ''Park.Nope'' \<noteq> ''Park''"
  by (simp add: resolveNode_def resolveLoop.simps lookup_defs)

section \<open>Properties of the validator\<close>

lemma set_set_add [simp]: "set (set_add xs x) = insert x (set xs)"
  by (auto simp: set_add_def)

lemma referencedNodeIds_push [simp]: "referencedNodeIds (push t m loc st) = referencedNodeIds st"
  by (simp add: push_def)

lemma referencedNodeIds_add_referenced [simp]:
  "referencedNodeIds (add_referenced nodeId st) = set_add (referencedNodeIds st) nodeId"
  by (simp add: add_referenced_def)

lemma referenced_validateOptions:
  "set (referencedNodeIds (validateOptions loc i opts st)) =
   set (referencedNodeIds st) \<union> set (step_targets (Choice prompt opts))"
  by (induction opts arbitrary: i st) auto

lemma referenced_validateStep:
  "set (referencedNodeIds (validateStep rt S loc s st)) =
   set (referencedNodeIds st) \<union> set (step_targets s)"
proof (cases s)
  case (Choice prompt opts)
  then show ?thesis
    using referenced_validateOptions [of loc 0 opts _ prompt]
    by (simp add: Let_def)
qed (auto simp: Let_def split: option.splits)

lemma targets_of_simps [simp]:
  "targets_of [] = {}"
  "targets_of (ss # lvs) = (\<Union>s \<in> set ss. set (step_targets s)) \<union> targets_of lvs"
  "targets_of (lvs @ lvs') = targets_of lvs \<union> targets_of lvs'"
  by (auto simp: targets_of_def)

lemma referenced_validateStepsLoop:
  "set (referencedNodeIds (validateStepsLoop rt S nodeId i ss st)) =
   set (referencedNodeIds st) \<union> (\<Union>s \<in> set ss. set (step_targets s))"
  by (induction ss arbitrary: i st) (auto simp: referenced_validateStep)

lemma referenced_validateSteps:
  "set (referencedNodeIds (validateSteps rt S ss nodeId st)) =
   set (referencedNodeIds st) \<union> (\<Union>s \<in> set ss. set (step_targets s))"
  by (simp add: validateSteps_def Let_def referenced_validateStepsLoop)

lemma referenced_validateNodes:
  "set (referencedNodeIds (validateNodes rt S ns prefix st)) =
   set (referencedNodeIds st) \<union> targets_of (leaves ns)"
  by (induction rt S ns prefix st rule: validateNodes.induct)
    (auto simp: referenced_validateSteps)

lemma referenced_walkNodes:
  "set (referencedNodeIds (walkNodes rt S ns)) = targets_of (leaves ns)"
  by (simp add: walkNodes_def referenced_validateNodes)

text \<open>
  C6. For every story, \<open>validateStory\<close> returns the error diagnostic "Referenced node
  ... does not exist" for each path that a jump_to, conditional_jump or choice option
  of some node names as its target and that is not a leaf path of the tree, and the
  warning diagnostic "... is defined but never referenced (unreachable)" for each leaf
  path that is neither the start node nor named as a target.
\<close>

theorem validateStory_reference_checks:
  "(\<forall>ss \<in> set (story_leaves S). \<forall>s \<in> set ss. \<forall>p \<in> set (step_targets s).
      p \<notin> set (leaf_paths S) \<longrightarrow>
        missing_reference p \<in> set (validateStory rt S) \<and>
        dtype (missing_reference p) = Error) \<and>
   (\<forall>p \<in> set (leaf_paths S).
      Some p \<noteq> start S \<and>
      (\<forall>ss \<in> set (story_leaves S). \<forall>s \<in> set ss. p \<notin> set (step_targets s)) \<longrightarrow>
        unreachable_node p \<in> set (validateStory rt S) \<and>
        dtype (unreachable_node p) = Warning)"
proof (cases "nodes S")
  case None
  then show ?thesis by (simp add: story_leaves_def leaf_paths_def)
next
  case (Some ns)
  have refs: "set (referencedNodeIds (walkNodes rt S ns)) = targets_of (leaves ns)"
    by (rule referenced_walkNodes)
  have dangling: "missing_reference p \<in> set (validateStory rt S)"
    if "p \<in> targets_of (leaves ns)" "p \<notin> set (collectNodeIds ns [] [])" for p
    using that Some refs by (simp add: validateStory_def Let_def)
  have unreachable: "unreachable_node p \<in> set (validateStory rt S)"
    if "p \<in> set (collectNodeIds ns [] [])" "Some p \<noteq> start S"
      "p \<notin> targets_of (leaves ns)" for p
    using that Some refs by (simp add: validateStory_def Let_def)
  show ?thesis
  proof (intro conjI ballI impI)
    fix ss s p
    assume "ss \<in> set (story_leaves S)" "s \<in> set ss" "p \<in> set (step_targets s)"
      "p \<notin> set (leaf_paths S)"
    then show "missing_reference p \<in> set (validateStory rt S)"
      using Some by (intro dangling) (auto simp: story_leaves_def leaf_paths_def targets_of_def)
  next
    fix p
    assume "p \<in> set (leaf_paths S)"
      "Some p \<noteq> start S \<and>
       (\<forall>ss \<in> set (story_leaves S). \<forall>s \<in> set ss. p \<notin> set (step_targets s))"
    then show "unreachable_node p \<in> set (validateStory rt S)"
      using Some by (intro unreachable) (auto simp: story_leaves_def leaf_paths_def targets_of_def)
  qed (simp_all add: missing_reference_def unreachable_node_def)
qed

theorem validateStory_reference_checks_witness:
  "missing_reference ''Nowhere'' \<in> set (validateStory example_runtime dangling_story) \<and>
   unreachable_node ''Park.Orphan'' \<in> set (validateStory example_runtime dangling_story)"
  using validateStory_reference_checks [of dangling_story example_runtime]
  by (simp add: dangling_story_def story_leaves_def leaf_paths_def truthy_def fullId_def
      set_add_def)

section \<open>Properties of the engine\<close>

lemma executeSteps_unfold:
  "executeSteps e =
     (if currentStepIndex e < length (currentSteps e) then
        Option.bind (executeStep (currentSteps e ! currentStepIndex e) e)
          (\<lambda>r. case r of
             (Threw err, e1) \<Rightarrow> Some (Threw err, e1)
           | (Returned shouldPause, e1) \<Rightarrow>
               if shouldPause then Some (Returned False, e1)
               else executeSteps (e1\<lparr>currentStepIndex := currentStepIndex e1 + 1\<rparr>))
      else Some (Returned False, log (NodeComplete (currentNode e)) e))"
  unfolding executeSteps_def executeStep_def
  by (subst run.simps) simp

lemma jumpToNode_unfold:
  "jumpToNode nodeId e =
     (case resolveNode (runtime e) (nodes (story e)) nodeId of
        Inl err \<Rightarrow> Some (Returned False, log (CannotJump nodeId) (log (ResolveFailed err) e))
      | Inr steps \<Rightarrow>
          executeSteps
            (e\<lparr>currentNode := Some nodeId, currentSteps := steps, currentStepIndex := 0\<rparr>))"
  unfolding executeSteps_def jumpToNode_def
  by (subst run.simps) simp

lemma executeStep_unfold:
  "executeStep step e =
     Option.bind
       (case step of
          Background ident \<Rightarrow> Some (then_return False (setBackground ident e))
        | ShowCharacter ident pose position \<Rightarrow>
            Some (then_return False (showCharacter ident pose position e))
        | HideCharacter ident \<Rightarrow> Some (then_return False (hideCharacter ident e))
        | Dialogue who txt \<Rightarrow> Some (then_return True (showDialogue who txt e))
        | Narration txt \<Rightarrow> Some (then_return True (showNarration txt e))
        | SetVariable key v \<Rightarrow> Some (then_return False (setVariable key v e))
        | JumpTo nodeId \<Rightarrow>
            (case nodeId of
               None \<Rightarrow> Some (Threw TypeError, e)
             | Some n \<Rightarrow> Option.bind (jumpToNode n e) (\<lambda>r. Some (then_return True r)))
        | ConditionalJump test thenNodeId elseNodeId \<Rightarrow>
            (case test of
               None \<Rightarrow> Some (Threw TypeError, e)
             | Some t \<Rightarrow>
                 (case t (state_vars e) of
                    Inl err \<Rightarrow> Some (Threw err, e)
                  | Inr testResult \<Rightarrow>
                      if testResult \<and> truthy thenNodeId then
                        Option.bind (jumpToNode (the thenNodeId) e) (\<lambda>r. Some (then_return True r))
                      else if \<not> testResult \<and> truthy elseNodeId then
                        Option.bind (jumpToNode (the elseNodeId) e) (\<lambda>r. Some (then_return True r))
                      else Some (Returned False, e)))
        | Choice prompt options \<Rightarrow> Some (then_return True (showChoices prompt options e))
        | EndStory \<Rightarrow> Some (then_return True (endStory e))
        | UnknownType t \<Rightarrow> Some (Returned False, log (UnknownStepType t) e)
        | MissingType \<Rightarrow> Some (Returned False, log (UnknownStepType ''undefined'') e))
       (\<lambda>r. Some (catch_rethrow r))"
  unfolding executeStep_def jumpToNode_def
  by (subst run.simps) simp

lemma executeSteps_at:
  "currentStepIndex e < length (currentSteps e) \<Longrightarrow>
   executeSteps e =
     Option.bind (executeStep (currentSteps e ! currentStepIndex e) e)
       (\<lambda>r. case r of
          (Threw err, e1) \<Rightarrow> Some (Threw err, e1)
        | (Returned shouldPause, e1) \<Rightarrow>
            if shouldPause then Some (Returned False, e1)
            else executeSteps (e1\<lparr>currentStepIndex := currentStepIndex e1 + 1\<rparr>))"
  by (subst executeSteps_unfold) simp

lemma executeSteps_exhausted:
  "\<not> currentStepIndex e < length (currentSteps e) \<Longrightarrow>
   executeSteps e = Some (Returned False, log (NodeComplete (currentNode e)) e)"
  by (subst executeSteps_unfold) simp

lemmas eval_defs = construct_def init_def newEngine_def jumpToNode_unfold executeSteps_at
  executeSteps_exhausted executeStep_unfold resolveNode_def resolveLoop.simps
  then_return_def catch_rethrow_def showChoices_def showNarration_def showDialogue_def
  endStory_def setVariable_def truthy_def absent_def say_def log_def after_def observe_def
  advance_def clickChoiceButton_def choiceClick_def runEffect_def catch_choice_def
  state_vars_def set_state_vars_def deref_def lookup_var_def label_text_def lookup_defs Let_def

lemma executeSteps_continue:
  "currentStepIndex e < length (currentSteps e) \<Longrightarrow>
   executeStep (currentSteps e ! currentStepIndex e) e = Some (Returned False, e1) \<Longrightarrow>
   executeSteps e = executeSteps (e1\<lparr>currentStepIndex := currentStepIndex e1 + 1\<rparr>)"
  by (simp add: executeSteps_at)

lemma executeSteps_halt:
  "currentStepIndex e < length (currentSteps e) \<Longrightarrow>
   executeStep (currentSteps e ! currentStepIndex e) e = Some (Returned True, e1) \<Longrightarrow>
   executeSteps e = Some (Returned False, e1)"
  by (simp add: executeSteps_at)

lemma executeSteps_propagate:
  "currentStepIndex e < length (currentSteps e) \<Longrightarrow>
   executeStep (currentSteps e ! currentStepIndex e) e = Some (Threw err, e1) \<Longrightarrow>
   executeSteps e = Some (Threw err, e1)"
  by (simp add: executeSteps_at)

lemma conditional_jump_fallthrough:
  assumes "t (state_vars e) = Inr b"
    and "if b then \<not> truthy thenNodeId else \<not> truthy elseNodeId"
  shows "executeStep (ConditionalJump (Some t) thenNodeId elseNodeId) e = Some (Returned False, e)"
  using assms by (cases b) (simp_all add: executeStep_unfold catch_rethrow_def)

lemma jumpToNode_resolved:
  "resolveNode (runtime e) (nodes (story e)) n = Inr steps \<Longrightarrow> jumpToNode n e = executeSteps (enter n steps e)"
  by (simp add: jumpToNode_unfold enter_def)

lemma jumpToNode_failed:
  "resolveNode (runtime e) (nodes (story e)) n = Inl err \<Longrightarrow>
   jumpToNode n e = Some (Returned False, log (CannotJump n) (log (ResolveFailed err) e))"
  by (simp add: jumpToNode_unfold)

lemma executeStep_JumpTo:
  "executeStep (JumpTo (Some n)) e = jump_result (jumpToNode n e)"
  by (simp add: executeStep_unfold jump_result_def)

lemma executeStep_ConditionalJump_taken:
  assumes "t (state_vars e) = Inr b" and "n \<noteq> []"
    and "if b then thenNodeId = Some n else elseNodeId = Some n"
  shows "executeStep (ConditionalJump (Some t) thenNodeId elseNodeId) e = jump_result (jumpToNode n e)"
  using assms by (cases b) (simp_all add: executeStep_unfold jump_result_def truthy_def)

lemma story_runEffect:
  "story (snd (runEffect opt e)) = story e \<and> runtime (snd (runEffect opt e)) = runtime e"
  by (simp add: runEffect_def set_state_vars_def split: option.splits prod.splits)

lemma choiceClick_jump:
  "runEffect opt e = (None, e1) \<Longrightarrow> truthy (opt_nodeId opt) \<Longrightarrow>
   choiceClick opt e = catch_choice opt (jumpToNode (the (opt_nodeId opt)) (say HideChoiceMenu e1))"
  by (simp add: choiceClick_def)

lemma choiceClick_continue:
  "runEffect opt e = (None, e1) \<Longrightarrow> \<not> truthy (opt_nodeId opt) \<Longrightarrow>
   choiceClick opt e =
     catch_choice opt
       (executeSteps ((say HideChoiceMenu e1)\<lparr>currentStepIndex := currentStepIndex e1 + 1\<rparr>))"
  by (simp add: choiceClick_def say_def)

lemma choiceClick_throws:
  "runEffect opt e = (Some err, e1) \<Longrightarrow>
   choiceClick opt e = Some (Threw err, log (ChoiceFailed (label_text (opt_label opt)) err) e1)"
  by (simp add: choiceClick_def)

text \<open>
  C1 at a failing input. In \<open>skip_story\<close> the start node is a choice followed by a
  narration. After construction the engine waits at the choice (cursor 0, the menu and
  its button on the page). \<open>showChoices\<close> has set \<open>waitingForInput\<close>, so
  \<open>advance\<close> is not a no-op there: it moves the cursor to 1 and shows the narration
  while the choice is still open.
\<close>

theorem advance_skips_choice:
  "observe currentStepIndex (construct example_runtime [Map.empty] skip_story) = Some 0 \<and>
   observe choiceButtons (construct example_runtime [Map.empty] skip_story) =
     Some [ChoiceOption (Some ''A'') (Some ''NodeA'') None] \<and>
   observe page (construct example_runtime [Map.empty] skip_story) =
     Some [ShowChoiceMenu ''Pick'', AddChoiceButton ''A''] \<and>
   observe currentStepIndex (after (construct example_runtime [Map.empty] skip_story) advance) = Some 1 \<and>
   observe page (after (construct example_runtime [Map.empty] skip_story) advance) =
     Some [ShowChoiceMenu ''Pick'', AddChoiceButton ''A'', HideContinueIndicator,
           SetNarration ''skipped'', ShowContinueIndicator]"
  by (simp add: skip_story_def eval_defs)

text \<open>
  C8 at a failing input. In \<open>ending_story\<close> a choice without target is followed by
  end_story and a set_variable step. Clicking the choice runs end_story (cursor 1, "THE
  END" on the page, \<open>x\<close> unset); the listener leaves \<open>waitingForInput\<close> as
  \<open>showChoices\<close> set it, so a later \<open>advance\<close> runs the step after end_story:
  the cursor becomes 3 and \<open>x\<close> is set.
\<close>

theorem advance_after_end_story:
  "observe currentStepIndex (after (construct example_runtime [Map.empty] ending_story) (clickChoiceButton 0)) = Some 1 \<and>
   observe page (after (construct example_runtime [Map.empty] ending_story) (clickChoiceButton 0)) =
     Some [ShowChoiceMenu ''Pick'', AddChoiceButton ''Go'', HideChoiceMenu, ShowTheEnd,
           HideContinueIndicator] \<and>
   observe (lookup_var ''x'') (after (construct example_runtime [Map.empty] ending_story) (clickChoiceButton 0)) = Some None \<and>
   observe currentStepIndex
     (after (after (construct example_runtime [Map.empty] ending_story) (clickChoiceButton 0)) advance) = Some 3 \<and>
   observe (lookup_var ''x'')
     (after (after (construct example_runtime [Map.empty] ending_story) (clickChoiceButton 0)) advance) =
     Some (Some (VNum 1))"
  by (simp add: ending_story_def eval_defs)

text \<open>
  C5. When the step at the cursor is a conditional_jump whose test returns false and
  whose else target is absent, \<open>executeStep\<close> returns \<open>false\<close> (no suspension) and
  leaves the whole engine state as it was (same node, nothing written to the page or
  the console), and the walk goes on as from the next cursor position.
\<close>

theorem conditional_jump_false_without_else:
  "t (state_vars e) = Inr False \<Longrightarrow> \<not> truthy elseNodeId \<Longrightarrow>
   currentStepIndex e < length (currentSteps e) \<Longrightarrow>
   currentSteps e ! currentStepIndex e = ConditionalJump (Some t) thenNodeId elseNodeId \<Longrightarrow>
   executeStep (currentSteps e ! currentStepIndex e) e = Some (Returned False, e) \<and>
   executeSteps e = executeSteps (e\<lparr>currentStepIndex := currentStepIndex e + 1\<rparr>)"
  using conditional_jump_fallthrough [of t e False thenNodeId elseNodeId] executeSteps_continue [of e e]
  by simp

theorem conditional_jump_false_without_else_witness:
  "executeStep (ConditionalJump (Some (\<lambda>vs. Inr False)) (Some ''Win'') None)
     (fallthrough_engine False (Some ''Win'') None) =
     Some (Returned False, fallthrough_engine False (Some ''Win'') None) \<and>
   executeSteps (fallthrough_engine False (Some ''Win'') None) =
     executeSteps ((fallthrough_engine False (Some ''Win'') None)\<lparr>currentStepIndex := 1\<rparr>)"
  using conditional_jump_false_without_else [of "\<lambda>vs. Inr False"
      "fallthrough_engine False (Some ''Win'') None" None "Some ''Win''"]
  by (simp add: fallthrough_engine_def newEngine_def truthy_def)

text \<open>
  C10. When the step at the cursor is a conditional_jump whose test returns true and
  whose then target is absent, there is no jump and no suspension, whatever the else
  target is: \<open>executeStep\<close> returns \<open>false\<close> with the engine state unchanged and
  the walk goes on as from the next cursor position.
\<close>

theorem conditional_jump_true_without_then:
  "t (state_vars e) = Inr True \<Longrightarrow> \<not> truthy thenNodeId \<Longrightarrow>
   currentStepIndex e < length (currentSteps e) \<Longrightarrow>
   currentSteps e ! currentStepIndex e = ConditionalJump (Some t) thenNodeId elseNodeId \<Longrightarrow>
   executeStep (currentSteps e ! currentStepIndex e) e = Some (Returned False, e) \<and>
   executeSteps e = executeSteps (e\<lparr>currentStepIndex := currentStepIndex e + 1\<rparr>)"
  using conditional_jump_fallthrough [of t e True thenNodeId elseNodeId] executeSteps_continue [of e e]
  by simp

theorem conditional_jump_true_without_then_witness:
  "executeStep (ConditionalJump (Some (\<lambda>vs. Inr True)) None (Some ''Lose''))
     (fallthrough_engine True None (Some ''Lose'')) =
     Some (Returned False, fallthrough_engine True None (Some ''Lose'')) \<and>
   executeSteps (fallthrough_engine True None (Some ''Lose'')) =
     executeSteps ((fallthrough_engine True None (Some ''Lose''))\<lparr>currentStepIndex := 1\<rparr>)"
  using conditional_jump_true_without_then [of "\<lambda>vs. Inr True"
      "fallthrough_engine True None (Some ''Lose'')" None "Some ''Lose''"]
  by (simp add: fallthrough_engine_def newEngine_def truthy_def)

text \<open>
  C4. A jump to a path that resolves starts the walk of the target from the state
  \<open>enter n steps e\<close>: current node the target, current steps the target's sequence,
  cursor 0, whatever the cursor and steps were before. This is what a jump_to step,
  the taken branch of a conditional_jump and a choice option with a target do.
\<close>

theorem jump_resets_cursor:
  "resolveNode (runtime e) (nodes (story e)) n = Inr steps \<Longrightarrow>
   jumpToNode n e = executeSteps (enter n steps e) \<and>
   currentNode (enter n steps e) = Some n \<and>
   currentSteps (enter n steps e) = steps \<and>
   currentStepIndex (enter n steps e) = 0 \<and>
   enter n steps (e\<lparr>currentStepIndex := k, currentSteps := old\<rparr>) = enter n steps e \<and>
   jumpToNode n (e\<lparr>currentStepIndex := k, currentSteps := old\<rparr>) = jumpToNode n e \<and>
   executeStep (JumpTo (Some n)) e = jump_result (executeSteps (enter n steps e)) \<and>
   (t (state_vars e) = Inr True \<and> n \<noteq> [] \<longrightarrow>
      executeStep (ConditionalJump (Some t) (Some n) elseNodeId) e =
        jump_result (executeSteps (enter n steps e))) \<and>
   (t (state_vars e) = Inr False \<and> n \<noteq> [] \<longrightarrow>
      executeStep (ConditionalJump (Some t) thenNodeId (Some n)) e =
        jump_result (executeSteps (enter n steps e))) \<and>
   (runEffect opt e = (None, e1) \<and> opt_nodeId opt = Some n \<and> n \<noteq> [] \<longrightarrow>
      choiceClick opt e = catch_choice opt (executeSteps (enter n steps (say HideChoiceMenu e1))))"
proof (intro conjI impI)
  assume r: "resolveNode (runtime e) (nodes (story e)) n = Inr steps"
  show j: "jumpToNode n e = executeSteps (enter n steps e)"
    using r by (rule jumpToNode_resolved)
  show "enter n steps (e\<lparr>currentStepIndex := k, currentSteps := old\<rparr>) = enter n steps e"
    by (simp add: enter_def)
  then show "jumpToNode n (e\<lparr>currentStepIndex := k, currentSteps := old\<rparr>) = jumpToNode n e"
    using r by (simp add: jumpToNode_resolved)
  show "executeStep (JumpTo (Some n)) e = jump_result (executeSteps (enter n steps e))"
    by (simp add: executeStep_JumpTo j)
  show "executeStep (ConditionalJump (Some t) (Some n) elseNodeId) e =
      jump_result (executeSteps (enter n steps e))"
    if "t (state_vars e) = Inr True \<and> n \<noteq> []"
    using that executeStep_ConditionalJump_taken [of t e True n "Some n" elseNodeId] j by simp
  show "executeStep (ConditionalJump (Some t) thenNodeId (Some n)) e =
      jump_result (executeSteps (enter n steps e))"
    if "t (state_vars e) = Inr False \<and> n \<noteq> []"
    using that executeStep_ConditionalJump_taken [of t e False n thenNodeId "Some n"] j by simp
  show "choiceClick opt e = catch_choice opt (executeSteps (enter n steps (say HideChoiceMenu e1)))"
    if h: "runEffect opt e = (None, e1) \<and> opt_nodeId opt = Some n \<and> n \<noteq> []"
  proof -
    have "story e1 = story e \<and> runtime e1 = runtime e"
      using story_runEffect [of opt e] h by simp
    then have "resolveNode (runtime (say HideChoiceMenu e1)) (nodes (story (say HideChoiceMenu e1))) n = Inr steps"
      using r by (simp add: say_def)
    then have "jumpToNode n (say HideChoiceMenu e1) = executeSteps (enter n steps (say HideChoiceMenu e1))"
      by (rule jumpToNode_resolved)
    then show ?thesis
      using h choiceClick_jump [of opt e e1] by (simp add: truthy_def)
  qed
qed (simp_all add: enter_def)

theorem jump_resets_cursor_witness:
  "resolveNode (runtime jump_engine) (nodes (story jump_engine)) ''NodeA'' = Inr [EndStory] \<and>
   currentStepIndex jump_engine = 2 \<and>
   jumpToNode ''NodeA'' jump_engine = executeSteps (enter ''NodeA'' [EndStory] jump_engine) \<and>
   currentStepIndex (enter ''NodeA'' [EndStory] jump_engine) = 0 \<and>
   currentSteps (enter ''NodeA'' [EndStory] jump_engine) = [EndStory] \<and>
   observe currentStepIndex (executeSteps jump_engine) = Some 0 \<and>
   observe currentNode (executeSteps jump_engine) = Some (Some ''NodeA'')"
  using jump_resets_cursor [where e = jump_engine and n = "''NodeA''" and steps = "[EndStory]"
      and t = "\<lambda>vs. Inr True" and elseNodeId = None and thenNodeId = None
      and opt = "ChoiceOption (Some ''A'') (Some ''NodeA'') None" and ?e1.0 = jump_engine
      and k = 0 and old = "[]"]
  by (simp add: jump_engine_def skip_story_def eval_defs enter_def jump_result_def)


lemma keeps_refl [simp]: "keeps e e"
  by (simp add: keeps_def)

lemma keeps_trans: "keeps e e1 \<Longrightarrow> keeps e1 e2 \<Longrightarrow> keeps e e2"
  by (simp add: keeps_def)

lemma keeps_say [simp]: "keeps e (say c e1) = keeps e e1"
  by (simp add: keeps_def say_def)

lemma keeps_log [simp]: "keeps e (log l e1) = keeps e e1"
  by (simp add: keeps_def log_def)

lemma keeps_set_state_vars [simp]: "keeps e (set_state_vars vs e1) = keeps e e1"
  by (auto simp: keeps_def set_state_vars_def deref_def)

lemma keeps_updates [simp]:
  "keeps e (e1\<lparr>waitingForInput := w\<rparr>) = keeps e e1"
  "keeps e (e1\<lparr>currentStepIndex := i\<rparr>) = keeps e e1"
  "keeps e (e1\<lparr>currentSteps := ss\<rparr>) = keeps e e1"
  "keeps e (e1\<lparr>currentNode := n\<rparr>) = keeps e e1"
  "keeps e (e1\<lparr>visibleCharacters := vc\<rparr>) = keeps e e1"
  "keeps e (e1\<lparr>choiceButtons := bs\<rparr>) = keeps e e1"
  "keeps e (e1\<lparr>debugPanelHidden := h\<rparr>) = keeps e e1"
  by (simp_all add: keeps_def)

lemma keeps_setBackground: "keeps e (snd (setBackground i e))"
  by (simp add: setBackground_def split: option.splits)

lemma keeps_showCharacter: "keeps e (snd (showCharacter i p q e))"
  by (simp add: showCharacter_def Let_def split: option.splits pose_lookup.splits)

lemma keeps_hideCharacter: "keeps e (snd (hideCharacter i e))"
  by (simp add: hideCharacter_def hideAt_def)

lemma keeps_showDialogue: "keeps e (snd (showDialogue w t e))"
  by (simp add: showDialogue_def Let_def split: option.splits member.splits)

lemma keeps_showNarration: "keeps e (snd (showNarration t e))"
  by (simp add: showNarration_def)

lemma keeps_setVariable: "keeps e (snd (setVariable k v e))"
  by (simp add: setVariable_def updateDebugPanel_def Let_def split: sum.splits step_value.splits)

lemma keeps_createButtons: "keeps e (createButtons i opts e1) = keeps e e1"
  by (induction opts arbitrary: i e1) simp_all

lemma keeps_showChoices: "keeps e (snd (showChoices p opts e))"
  by (simp add: showChoices_def Let_def keeps_createButtons)

lemma keeps_endStory: "keeps e (snd (endStory e))"
  by (simp add: endStory_def)

lemma snd_then_return [simp]: "snd (then_return b r) = snd r"
  by (simp add: then_return_def split: prod.splits outcome.splits)

lemma keeps_catch_rethrow [simp]: "keeps e (snd (catch_rethrow r)) = keeps e (snd r)"
  by (simp add: catch_rethrow_def split: prod.splits outcome.splits)

lemma keeps_left [simp]:
  "keeps (e\<lparr>currentStepIndex := i\<rparr>) e' = keeps e e'"
  "keeps (e\<lparr>currentNode := n\<rparr>) e' = keeps e e'"
  "keeps (e\<lparr>currentSteps := ss\<rparr>) e' = keeps e e'"
  "keeps (say c e) e' = keeps e e'"
  "keeps (e\<lparr>waitingForInput := w\<rparr>) e' = keeps e e'"
  by (simp_all add: keeps_def say_def)

lemma run_keeps:
  assumes "run c e = Some r"
  shows "keeps e (snd r)"
proof (induction c e r rule: run.raw_induct)
  case (1 f c e r)
  note IH = 1(1) and body = 1(2)
  have jump: "keeps e (snd (then_return True r1))" if "f (JumpToNode n) e = Some r1" for n r1
    using IH [OF that] by simp
  show ?case
  proof (cases c)
    case ExecuteSteps
    show ?thesis
    proof (cases "currentStepIndex e < length (currentSteps e)")
      case False
      with body ExecuteSteps show ?thesis by auto
    next
      case True
      with body ExecuteSteps obtain r1 where
        r1': "f (ExecuteStep (currentSteps e ! currentStepIndex e)) e = Some r1"
        and rest': "(case r1 of
             (Threw err, e1) \<Rightarrow> Some (Threw err, e1)
           | (Returned shouldPause, e1) \<Rightarrow>
               if shouldPause then Some (Returned False, e1)
               else f ExecuteSteps (e1\<lparr>currentStepIndex := currentStepIndex e1 + 1\<rparr>)) = Some r"
        by (auto simp: bind_eq_Some_conv)
      obtain out e1 where r1_eq: "r1 = (out, e1)" by (cases r1)
      have r1: "f (ExecuteStep (currentSteps e ! currentStepIndex e)) e = Some (out, e1)"
        using r1' r1_eq by simp
      have rest: "(case out of
             Threw err \<Rightarrow> Some (Threw err, e1)
           | Returned shouldPause \<Rightarrow>
               if shouldPause then Some (Returned False, e1)
               else f ExecuteSteps (e1\<lparr>currentStepIndex := currentStepIndex e1 + 1\<rparr>)) = Some r"
        using rest' r1_eq by (simp split: outcome.splits)
      have k1: "keeps e e1" using IH [OF r1] by simp
      show ?thesis
      proof (cases out)
        case (Threw err)
        with rest k1 show ?thesis by auto
      next
        case (Returned shouldPause)
        show ?thesis
        proof (cases shouldPause)
          case True
          with rest Returned k1 show ?thesis by auto
        next
          case False
          with rest Returned
          have "f ExecuteSteps (e1\<lparr>currentStepIndex := currentStepIndex e1 + 1\<rparr>) = Some r"
            by simp
          from IH [OF this] have "keeps e1 (snd r)" by simp
          with k1 show ?thesis by (rule keeps_trans)
        qed
      qed
    qed
  next
    case (JumpToNode nodeId)
    show ?thesis
    proof (cases "resolveNode (runtime e) (nodes (story e)) nodeId")
      case (Inl err)
      with body JumpToNode show ?thesis by auto
    next
      case (Inr steps)
      with body JumpToNode
      have "f ExecuteSteps
              (e\<lparr>currentNode := Some nodeId, currentSteps := steps, currentStepIndex := 0\<rparr>) = Some r"
        by simp
      from IH [OF this] show ?thesis by simp
    qed
  next
    case (ExecuteStep step)
    with body obtain r0 where
      r0: "(case step of
          Background ident \<Rightarrow> Some (then_return False (setBackground ident e))
        | ShowCharacter ident pose position \<Rightarrow>
            Some (then_return False (showCharacter ident pose position e))
        | HideCharacter ident \<Rightarrow> Some (then_return False (hideCharacter ident e))
        | Dialogue who txt \<Rightarrow> Some (then_return True (showDialogue who txt e))
        | Narration txt \<Rightarrow> Some (then_return True (showNarration txt e))
        | SetVariable key v \<Rightarrow> Some (then_return False (setVariable key v e))
        | JumpTo nodeId \<Rightarrow>
            (case nodeId of
               None \<Rightarrow> Some (Threw TypeError, e)
             | Some n \<Rightarrow> Option.bind (f (JumpToNode n) e) (\<lambda>r. Some (then_return True r)))
        | ConditionalJump test thenNodeId elseNodeId \<Rightarrow>
            (case test of
               None \<Rightarrow> Some (Threw TypeError, e)
             | Some t \<Rightarrow>
                 (case t (state_vars e) of
                    Inl err \<Rightarrow> Some (Threw err, e)
                  | Inr testResult \<Rightarrow>
                      if testResult \<and> truthy thenNodeId then
                        Option.bind (f (JumpToNode (the thenNodeId)) e) (\<lambda>r. Some (then_return True r))
                      else if \<not> testResult \<and> truthy elseNodeId then
                        Option.bind (f (JumpToNode (the elseNodeId)) e) (\<lambda>r. Some (then_return True r))
                      else Some (Returned False, e)))
        | Choice prompt options \<Rightarrow> Some (then_return True (showChoices prompt options e))
        | EndStory \<Rightarrow> Some (then_return True (endStory e))
        | UnknownType t \<Rightarrow> Some (Returned False, log (UnknownStepType t) e)
        | MissingType \<Rightarrow> Some (Returned False, log (UnknownStepType ''undefined'') e)) = Some r0"
      and r: "r = catch_rethrow r0"
      by (auto simp: bind_eq_Some_conv)
    have "keeps e (snd r0)"
    proof (cases step)
      case (JumpTo nodeId)
      with r0 show ?thesis
        by (cases nodeId) (auto simp: bind_eq_Some_conv dest: jump)
    next
      case (ConditionalJump test thenNodeId elseNodeId)
      with r0 show ?thesis
        by (cases test) (auto simp: bind_eq_Some_conv dest: jump split: sum.splits if_splits)
    qed (use r0 in \<open>auto simp: keeps_setBackground keeps_showCharacter keeps_hideCharacter
          keeps_showDialogue keeps_showNarration keeps_setVariable keeps_showChoices keeps_endStory\<close>)
    with r show ?thesis by simp
  qed
qed (fact assms)

lemma keeps_original:
  "keeps e e' \<Longrightarrow> variables (story e) = Some a \<Longrightarrow> state_variables e \<noteq> a \<Longrightarrow>
   original_variables e' = original_variables e \<and> story e' = story e \<and> state_variables e' \<noteq> a"
  by (simp add: keeps_def original_variables_def)

lemma executeSteps_keeps: "executeSteps e = Some r \<Longrightarrow> keeps e (snd r)"
  unfolding executeSteps_def by (rule run_keeps)

lemma executeStep_keeps: "executeStep step e = Some r \<Longrightarrow> keeps e (snd r)"
  unfolding executeStep_def by (rule run_keeps)

lemma jumpToNode_keeps: "jumpToNode n e = Some r \<Longrightarrow> keeps e (snd r)"
  unfolding jumpToNode_def by (rule run_keeps)

lemma advance_keeps: "advance e = Some r \<Longrightarrow> keeps e (snd r)"
  by (auto simp: advance_def dest!: executeSteps_keeps split: if_splits)

lemma runEffect_keeps: "keeps e (snd (runEffect opt e))"
  by (simp add: runEffect_def split: option.splits prod.splits)

lemma catch_choice_keeps:
  assumes "catch_choice opt r0 = Some r" and "\<And>r1. r0 = Some r1 \<Longrightarrow> keeps e (snd r1)"
  shows "keeps e (snd r)"
proof -
  from assms(1) obtain r1 where r1: "r0 = Some r1"
    by (cases r0) (simp_all add: catch_choice_def)
  obtain out1 e1 where p: "r1 = (out1, e1)" by (cases r1)
  have "keeps e e1" using assms(2) [OF r1] p by simp
  then show ?thesis
    using assms(1) r1 p by (cases out1) (auto simp: catch_choice_def)
qed

lemma choiceClick_keeps:
  assumes "choiceClick opt e = Some r"
  shows "keeps e (snd r)"
proof -
  obtain x e1 where eff: "runEffect opt e = (x, e1)" by (cases "runEffect opt e")
  have k1: "keeps e e1" using runEffect_keeps [of e opt] eff by simp
  show ?thesis
  proof (cases x)
    case (Some err)
    with assms eff k1 show ?thesis by (auto simp: choiceClick_def)
  next
    case None
    with assms eff have c: "catch_choice opt
        (let e2 = say HideChoiceMenu e1
         in if truthy (opt_nodeId opt) then jumpToNode (the (opt_nodeId opt)) e2
            else executeSteps (e2\<lparr>currentStepIndex := currentStepIndex e2 + 1\<rparr>)) = Some r"
      by (simp add: choiceClick_def)
    have "keeps e1 (snd r)"
      using c by (rule catch_choice_keeps)
        (auto simp: Let_def dest!: jumpToNode_keeps executeSteps_keeps split: if_splits)
    with k1 show ?thesis by (rule keeps_trans)
  qed
qed

lemma deliver_keeps: "deliver ev e = Some r \<Longrightarrow> keeps e (snd r)"
  by (cases ev)
    (auto simp: clickChoiceButton_def toggleDebugPanel_def updateDebugPanel_def Let_def
      dest: advance_keeps choiceClick_keeps split: if_splits)

lemma play_None [simp]: "play evs None = None"
  by (induction evs) (simp_all add: after_def)

lemma play_keeps: "play evs (Some (out, e)) = Some r \<Longrightarrow> keeps e (snd r)"
proof (induction evs arbitrary: out e)
  case Nil
  then show ?case by auto
next
  case (Cons ev evs)
  then obtain out1 e1 where d: "deliver ev e = Some (out1, e1)"
    and p: "play evs (Some (out1, e1)) = Some r"
    by (cases "deliver ev e") (auto simp: after_def)
  have "keeps e e1" using deliver_keeps [OF d] by simp
  moreover have "keeps e1 (snd r)" using Cons.IH [OF p] .
  ultimately show ?case by (rule keeps_trans)
qed

lemma construct_keeps: "construct rt objs S = Some r \<Longrightarrow> keeps (newEngine rt objs S) (snd r)"
  by (auto simp: construct_def init_def dest: jumpToNode_keeps split: option.splits)

text \<open>
  C9. The constructor gives the state a fresh object holding a copy of the story's
  variables, and nothing the engine does afterwards writes to the story's own object:
  after construction and any sequence of events that returns, and after any single
  step executed in a state whose own object is not the story's, the story's variables
  hold what they held at load and the story is the one that was loaded.
\<close>

theorem story_variables_never_mutated:
  "variables S = Some a \<Longrightarrow> a < length objs \<Longrightarrow>
   state_vars (newEngine rt objs S) = deref objs a \<and>
   state_variables (newEngine rt objs S) \<noteq> a \<and>
   original_variables (newEngine rt objs S) = deref objs a \<and>
   (play evs (construct rt objs S) \<noteq> None \<longrightarrow>
      observe original_variables (play evs (construct rt objs S)) = Some (deref objs a) \<and>
      observe story (play evs (construct rt objs S)) = Some S) \<and>
   (variables (story e) = Some a \<and> state_variables e \<noteq> a \<and>
    executeStep step e = Some (out, e') \<longrightarrow>
      original_variables e' = original_variables e \<and> state_variables e' \<noteq> a)"
proof (intro conjI impI)
  assume va: "variables S = Some a" and al: "a < length objs"
  let ?e0 = "newEngine rt objs S"
  show "state_vars ?e0 = deref objs a"
    using va by (simp add: state_vars_def newEngine_def deref_def)
  show na: "state_variables ?e0 \<noteq> a"
    using al by (simp add: newEngine_def)
  show o0: "original_variables ?e0 = deref objs a"
    using va al by (simp add: original_variables_def newEngine_def deref_def nth_append)
  have s0: "variables (story ?e0) = Some a" "story ?e0 = S"
    using va by (simp_all add: newEngine_def)
  {
    assume "play evs (construct rt objs S) \<noteq> None"
    then obtain r where r: "play evs (construct rt objs S) = Some r" by auto
    then obtain out1 e1 where c: "construct rt objs S = Some (out1, e1)"
      by (cases "construct rt objs S") auto
    have "keeps ?e0 e1" using construct_keeps [OF c] by simp
    moreover have "keeps e1 (snd r)" using play_keeps r c by simp
    ultimately have "keeps ?e0 (snd r)" by (rule keeps_trans)
    from keeps_original [OF this s0(1) na] o0 s0(2)
    have "original_variables (snd r) = deref objs a" and "story (snd r) = S"
      by simp_all
    then show "observe original_variables (play evs (construct rt objs S)) = Some (deref objs a)"
      and "observe story (play evs (construct rt objs S)) = Some S"
      unfolding r by (cases r; simp add: observe_def)+
  }
  {
    assume h: "variables (story e) = Some a \<and> state_variables e \<noteq> a \<and>
      executeStep step e = Some (out, e')"
    then have "keeps e e'" using executeStep_keeps [of step e "(out, e')"] by simp
    from keeps_original [OF this] h
    show "original_variables e' = original_variables e" and "state_variables e' \<noteq> a"
      by simp_all
  }
qed

theorem story_variables_never_mutated_witness:
  "observe (lookup_var ''score'') (play [Advance] (construct example_runtime [[''score'' \<mapsto> VNum 0]] score_story)) =
     Some (Some (VNum 5)) \<and>
   observe (lookup_var ''bonus'') (play [Advance] (construct example_runtime [[''score'' \<mapsto> VNum 0]] score_story)) =
     Some (Some (VBool True)) \<and>
   observe original_variables (play [Advance] (construct example_runtime [[''score'' \<mapsto> VNum 0]] score_story)) =
     Some [''score'' \<mapsto> VNum 0]"
  using story_variables_never_mutated [where S = score_story and a = 0
      and rt = example_runtime
      and objs = "[[''score'' \<mapsto> VNum 0]]" and evs = "[Advance]"
      and e = "newEngine example_runtime [[''score'' \<mapsto> VNum 0]] score_story" and step = EndStory
      and out = "Returned True"
      and e' = "say HideContinueIndicator (say ShowTheEnd (log StoryEnded
                  (newEngine example_runtime [[''score'' \<mapsto> VNum 0]] score_story)))"]
  by (simp add: score_story_def add_to_score_def eval_defs)


lemma currentStepIndex_runEffect: "currentStepIndex (snd (runEffect opt e)) = currentStepIndex e"
  by (simp add: runEffect_def set_state_vars_def split: option.splits prod.splits)

text \<open>
  C3, as the code has it. The click listener of a choice button first runs the option's
  effect (when there is one) on the state's variables. If the effect throws, the
  listener throws and nothing is transferred. Otherwise the menu is hidden and control
  is transferred from the state the effect left: to the target when the target is a
  non-empty path (the walk of a target that resolves starts at cursor 0), and to the
  next cursor position of the current node when the target is null or the empty string.
\<close>

theorem choiceClick_effect_then_transfer:
  "(opt_effectFn opt = None \<longrightarrow> runEffect opt e = (None, e)) \<and>
   (opt_effectFn opt = Some f \<longrightarrow>
      runEffect opt e = (fst (f (state_vars e)), set_state_vars (snd (f (state_vars e))) e)) \<and>
   (runEffect opt e = (Some err, e1) \<longrightarrow>
      choiceClick opt e = Some (Threw err, log (ChoiceFailed (label_text (opt_label opt)) err) e1)) \<and>
   (runEffect opt e = (None, e1) \<and> opt_nodeId opt = Some n \<and> n \<noteq> [] \<longrightarrow>
      choiceClick opt e = catch_choice opt (jumpToNode n (say HideChoiceMenu e1))) \<and>
   (runEffect opt e = (None, e1) \<and> opt_nodeId opt = Some n \<and> n \<noteq> [] \<and>
    resolveNode (runtime e) (nodes (story e)) n = Inr steps \<longrightarrow>
      choiceClick opt e = catch_choice opt (executeSteps (enter n steps (say HideChoiceMenu e1)))) \<and>
   (runEffect opt e = (None, e1) \<and> (opt_nodeId opt = None \<or> opt_nodeId opt = Some []) \<longrightarrow>
      choiceClick opt e =
        catch_choice opt
          (executeSteps ((say HideChoiceMenu e1)\<lparr>currentStepIndex := currentStepIndex e + 1\<rparr>)))"
proof (intro conjI impI)
  show "runEffect opt e = (None, e)" if "opt_effectFn opt = None"
    using that by (simp add: runEffect_def)
  show "runEffect opt e = (fst (f (state_vars e)), set_state_vars (snd (f (state_vars e))) e)"
    if "opt_effectFn opt = Some f"
    using that by (simp add: runEffect_def split: prod.splits)
  show "choiceClick opt e = Some (Threw err, log (ChoiceFailed (label_text (opt_label opt)) err) e1)"
    if "runEffect opt e = (Some err, e1)"
    using that by (rule choiceClick_throws)
  show "choiceClick opt e = catch_choice opt (jumpToNode n (say HideChoiceMenu e1))"
    if "runEffect opt e = (None, e1) \<and> opt_nodeId opt = Some n \<and> n \<noteq> []"
    using that choiceClick_jump [of opt e e1] by (simp add: truthy_def)
  show "choiceClick opt e = catch_choice opt (executeSteps (enter n steps (say HideChoiceMenu e1)))"
    if h: "runEffect opt e = (None, e1) \<and> opt_nodeId opt = Some n \<and> n \<noteq> [] \<and>
      resolveNode (runtime e) (nodes (story e)) n = Inr steps"
  proof -
    have "story e1 = story e \<and> runtime e1 = runtime e"
      using story_runEffect [of opt e] h by simp
    then have "jumpToNode n (say HideChoiceMenu e1) = executeSteps (enter n steps (say HideChoiceMenu e1))"
      using h by (intro jumpToNode_resolved) (simp add: say_def)
    then show ?thesis
      using h choiceClick_jump [of opt e e1] by (simp add: truthy_def)
  qed
  show "choiceClick opt e =
      catch_choice opt
        (executeSteps ((say HideChoiceMenu e1)\<lparr>currentStepIndex := currentStepIndex e + 1\<rparr>))"
    if h: "runEffect opt e = (None, e1) \<and> (opt_nodeId opt = None \<or> opt_nodeId opt = Some [])"
  proof -
    have "currentStepIndex e1 = currentStepIndex e"
      using currentStepIndex_runEffect [of opt e] h by simp
    moreover have "\<not> truthy (opt_nodeId opt)"
      using h by (auto simp: truthy_def)
    ultimately show ?thesis
      using h choiceClick_continue [of opt e e1] by simp
  qed
qed

theorem choiceClick_effect_then_transfer_witness:
  "observe currentNode
     (choiceClick (ChoiceOption (Some ''Leave'') (Some ''Exit'') (Some (paint ''blue''))) choice_engine) =
     Some (Some ''Blue'') \<and>
   observe currentStepIndex
     (choiceClick (ChoiceOption (Some ''Leave'') (Some ''Exit'') (Some (paint ''blue''))) choice_engine) =
     Some 0 \<and>
   observe (lookup_var ''color'')
     (choiceClick (ChoiceOption (Some ''Leave'') (Some ''Exit'') (Some (paint ''blue''))) choice_engine) =
     Some (Some (VStr ''blue'')) \<and>
   observe currentNode
     (choiceClick (ChoiceOption (Some ''Red'') None (Some (paint ''red''))) choice_engine) =
     Some (Some ''Start'') \<and>
   observe currentStepIndex
     (choiceClick (ChoiceOption (Some ''Red'') None (Some (paint ''red''))) choice_engine) =
     Some 1 \<and>
   observe (lookup_var ''color'')
     (choiceClick (ChoiceOption (Some ''Red'') None (Some (paint ''red''))) choice_engine) =
     Some (Some (VStr ''red''))"
  using choiceClick_effect_then_transfer
      [where opt = "ChoiceOption (Some ''Leave'') (Some ''Exit'') (Some (paint ''blue''))"
        and e = choice_engine and f = "paint ''blue''" and err = "JsError ''none''"
        and ?e1.0 = "set_state_vars [''color'' \<mapsto> VStr ''blue''] choice_engine"
        and n = "''Exit''"
        and steps = "[ConditionalJump (Some (is_color ''blue'')) (Some ''Blue'') (Some ''Other'')]"]
    choiceClick_effect_then_transfer
      [where opt = "ChoiceOption (Some ''Red'') None (Some (paint ''red''))"
        and e = choice_engine and f = "paint ''red''" and err = "JsError ''none''"
        and ?e1.0 = "set_state_vars [''color'' \<mapsto> VStr ''red''] choice_engine"
        and n = "''Exit''" and steps = "[]"]
  by (simp add: choice_engine_def choice_story_def paint_def is_color_def eval_defs enter_def)

text \<open>
  C3 at the input where it fails as stated: an option whose target is the empty string,
  in a tree that has a node of that name. The target is not null and resolves, yet the
  click does not jump to it: the engine stays in \<open>Start\<close> and moves to cursor 1.
\<close>

theorem choice_empty_target_counterexample:
  "resolveNode example_runtime (nodes empty_target_story) [] = Inr [Narration (Some ''jumped'')] \<and>
   observe choiceButtons (construct example_runtime [Map.empty] empty_target_story) =
     Some [ChoiceOption (Some ''Go'') (Some []) None] \<and>
   observe currentNode (after (construct example_runtime [Map.empty] empty_target_story) (clickChoiceButton 0)) =
     Some (Some ''Start'') \<and>
   observe currentStepIndex (after (construct example_runtime [Map.empty] empty_target_story) (clickChoiceButton 0)) =
     Some 1 \<and>
   observe page (after (construct example_runtime [Map.empty] empty_target_story) (clickChoiceButton 0)) =
     Some [ShowChoiceMenu ''Pick'', AddChoiceButton ''Go'', HideChoiceMenu,
           SetNarration ''still here'', ShowContinueIndicator]"
  by (simp add: empty_target_story_def eval_defs)


lemma setVariable_compute_throws:
  "truthy key \<Longrightarrow> f (state_vars e) = Inl err \<Longrightarrow>
   executeStep (SetVariable key (Compute f)) e =
     Some (Threw err, log (StepFailed (currentNode e) err) (log (SetVariableFailed (the key) err) e))"
  by (simp add: executeStep_unfold setVariable_def then_return_def catch_rethrow_def log_def)

lemma unknown_place:
  "places (story e) = Some ps \<Longrightarrow> image_of (runtime e) ps (key_of placeId) = None \<Longrightarrow>
   executeStep (Background placeId) e =
     Some (Returned False, log (BackgroundNotFound (key_of placeId) (map fst ps)) e)"
  by (simp add: executeStep_unfold setBackground_def then_return_def catch_rethrow_def)

lemma unknown_character:
  "characters (story e) = Some cs \<Longrightarrow> object_get (runtime e) cs (key_of charId) = None \<Longrightarrow>
   executeStep (ShowCharacter charId pose position) e =
     Some (Returned False, log (CharacterNotFound (key_of charId) (map fst cs)) e)"
  by (simp add: executeStep_unfold showCharacter_def then_return_def catch_rethrow_def)

lemma unknown_pose:
  "characters (story e) = Some cs \<Longrightarrow> object_get (runtime e) cs (key_of charId) = Some (Own ch) \<Longrightarrow>
   pose_name p \<noteq> [] \<Longrightarrow> image_of (runtime e) (poses ch) (pose_name p) = None \<Longrightarrow>
   executeStep (ShowCharacter charId (Some p) position) e =
     Some (Returned False,
           log (PoseNotFound (pose_name p) (key_of charId) (map fst (poses ch))) e)"
  by (simp add: executeStep_unfold showCharacter_def pose_of_def then_return_def
      catch_rethrow_def absent_def)

lemma unknown_position:
  "characters (story e) = Some cs \<Longrightarrow> object_get (runtime e) cs (key_of charId) = Some (Own ch) \<Longrightarrow>
   pose_name p \<noteq> [] \<Longrightarrow> image_of (runtime e) (poses ch) (pose_name p) = Some img \<Longrightarrow>
   position_name q \<noteq> [] \<Longrightarrow> slot_of (position_name q) = None \<Longrightarrow>
   executeStep (ShowCharacter charId (Some p) (Some q)) e =
     Some (Returned False, log (UnknownPosition (position_name q) (key_of charId)) e)"
  by (simp add: executeStep_unfold showCharacter_def pose_of_def then_return_def
      catch_rethrow_def absent_def)

text \<open>
  An id that names a member every object inherits is not unknown to the lookup: a
  show_character step with such an id throws when the value found has no \<open>poses\<close>,
  and a background step with such an id writes the value found to the page.
\<close>

lemma inherited_character_throws:
  "characters (story e) = Some cs \<Longrightarrow>
   object_get (runtime e) cs (key_of charId) = Some (Inherited f) \<Longrightarrow>
   pose_name p \<noteq> [] \<Longrightarrow> foreign_pose (runtime e) f (pose_name p) = PoseThrows \<Longrightarrow>
   executeStep (ShowCharacter charId (Some p) position) e =
     Some (Threw TypeError, log (StepFailed (currentNode e) TypeError) e)"
  by (simp add: executeStep_unfold showCharacter_def pose_of_def then_return_def
      catch_rethrow_def absent_def)

lemma inherited_place_shown:
  "places (story e) = Some ps \<Longrightarrow>
   object_get (runtime e) ps (key_of placeId) = Some (Inherited f) \<Longrightarrow>
   executeStep (Background placeId) e =
     Some (Returned False, say (SetBackground (foreign_string (runtime e) f)) e)"
  by (simp add: executeStep_unfold setBackground_def image_of_def then_return_def
      catch_rethrow_def)

lemma unknown_node:
  "resolveNode (runtime e) (nodes (story e)) n = Inl rerr \<Longrightarrow>
   executeStep (JumpTo (Some n)) e =
     Some (Returned True, log (CannotJump n) (log (ResolveFailed rerr) e))"
  by (simp add: executeStep_JumpTo jumpToNode_failed jump_result_def then_return_def
      catch_rethrow_def)

text \<open>
  C7, as the code has it. An exception thrown by the compute function of a
  set_variable step comes out of \<open>executeStep\<close>, and out of the walk, as that same
  exception (the catch clauses only report it); an exception thrown by a choice effect
  comes out of the click listener. In a story that has its \<open>places\<close> and
  \<open>characters\<close> maps, an unknown place and, for show_character, an unknown
  character, pose or position (unknown: the lookup finds nothing truthy, own or
  inherited) only add a report to the console, and the walk continues at the next
  cursor position. An unknown node also only adds reports, but the jump step returns
  \<open>true\<close> and the walk of the current node stops there.
\<close>

theorem author_errors_propagate_lookups_logged:
  "(truthy key \<and> f (state_vars e) = Inl err \<longrightarrow>
      executeStep (SetVariable key (Compute f)) e =
        Some (Threw err,
              log (StepFailed (currentNode e) err) (log (SetVariableFailed (the key) err) e))) \<and>
   (runEffect opt e = (Some err, e1) \<longrightarrow>
      choiceClick opt e = Some (Threw err, log (ChoiceFailed (label_text (opt_label opt)) err) e1)) \<and>
   (currentStepIndex e < length (currentSteps e) \<and>
    executeStep (currentSteps e ! currentStepIndex e) e = Some (Threw err, e2) \<longrightarrow>
      executeSteps e = Some (Threw err, e2)) \<and>
   (places (story e) = Some ps \<and> image_of (runtime e) ps (key_of placeId) = None \<longrightarrow>
      executeStep (Background placeId) e =
        Some (Returned False, log (BackgroundNotFound (key_of placeId) (map fst ps)) e)) \<and>
   (characters (story e) = Some cs \<and>
    object_get (runtime e) cs (key_of stranger) = None \<longrightarrow>
      executeStep (ShowCharacter stranger pose position) e =
        Some (Returned False, log (CharacterNotFound (key_of stranger) (map fst cs)) e)) \<and>
   (characters (story e) = Some cs \<and>
    object_get (runtime e) cs (key_of charId) = Some (Own ch) \<and>
    pose_name p \<noteq> [] \<and> image_of (runtime e) (poses ch) (pose_name p) = None \<longrightarrow>
      executeStep (ShowCharacter charId (Some p) position) e =
        Some (Returned False,
              log (PoseNotFound (pose_name p) (key_of charId) (map fst (poses ch))) e)) \<and>
   (characters (story e) = Some cs \<and>
    object_get (runtime e) cs (key_of charId) = Some (Own ch) \<and>
    pose_name p' \<noteq> [] \<and> image_of (runtime e) (poses ch) (pose_name p') = Some img \<and>
    position_name q \<noteq> [] \<and> slot_of (position_name q) = None \<longrightarrow>
      executeStep (ShowCharacter charId (Some p') (Some q)) e =
        Some (Returned False, log (UnknownPosition (position_name q) (key_of charId)) e)) \<and>
   (currentStepIndex e < length (currentSteps e) \<and>
    executeStep (currentSteps e ! currentStepIndex e) e = Some (Returned False, e3) \<longrightarrow>
      executeSteps e = executeSteps (e3\<lparr>currentStepIndex := currentStepIndex e3 + 1\<rparr>)) \<and>
   (resolveNode (runtime e) (nodes (story e)) n = Inl rerr \<longrightarrow>
      executeStep (JumpTo (Some n)) e =
        Some (Returned True, log (CannotJump n) (log (ResolveFailed rerr) e))) \<and>
   (currentStepIndex e < length (currentSteps e) \<and>
    executeStep (currentSteps e ! currentStepIndex e) e = Some (Returned True, e4) \<longrightarrow>
      executeSteps e = Some (Returned False, e4))"
  using setVariable_compute_throws [of key f e err] choiceClick_throws [of opt e err e1]
    executeSteps_propagate [of e err e2] unknown_place [of e ps placeId]
    unknown_character [of e cs stranger pose position] unknown_pose [of e cs charId ch p position]
    unknown_position [of e cs charId ch p' img q] executeSteps_continue [of e e3]
    unknown_node [of e n rerr] executeSteps_halt [of e e4]
  by blast

theorem author_errors_propagate_lookups_logged_witness:
  "executeStep (SetVariable (Some ''x'') (Compute failing_compute)) stage_engine =
     Some (Threw (JsError ''boom''),
           log (StepFailed (Some ''Start'') (JsError ''boom''))
             (log (SetVariableFailed ''x'' (JsError ''boom'')) stage_engine)) \<and>
   choiceClick (ChoiceOption (Some ''Go'') None (Some failing_effect)) stage_engine =
     Some (Threw (JsError ''boom''), log (ChoiceFailed ''Go'' (JsError ''boom'')) stage_engine) \<and>
   executeStep (Background (Id ''moon'')) stage_engine =
     Some (Returned False, log (BackgroundNotFound ''moon'' [''park'']) stage_engine) \<and>
   executeStep (ShowCharacter (Id ''bo'') None None) stage_engine =
     Some (Returned False, log (CharacterNotFound ''bo'' [''al'']) stage_engine) \<and>
   executeStep (ShowCharacter (Id ''al'') (Some (CharacterPose ''sad'')) None) stage_engine =
     Some (Returned False, log (PoseNotFound ''sad'' ''al'' [''happy'']) stage_engine) \<and>
   executeStep (ShowCharacter (Id ''al'') (Some (CharacterPose ''happy''))
       (Some (CharacterPosition ''top''))) stage_engine =
     Some (Returned False, log (UnknownPosition ''top'' ''al'') stage_engine) \<and>
   executeSteps stage_engine =
     executeSteps ((log (BackgroundNotFound ''moon'' [''park'']) stage_engine)\<lparr>currentStepIndex := 1\<rparr>) \<and>
   executeStep (JumpTo (Some ''Nowhere'')) stage_engine =
     Some (Returned True,
           log (CannotJump ''Nowhere'')
             (log (ResolveFailed (NodeNotFound ''Nowhere'' ''Nowhere'' [''Start''])) stage_engine))"
  using author_errors_propagate_lookups_logged
      [where key = "Some ''x''" and f = failing_compute and e = stage_engine
        and err = "JsError ''boom''"
        and opt = "ChoiceOption (Some ''Go'') None (Some failing_effect)"
        and ?e1.0 = stage_engine and ?e2.0 = stage_engine
        and ps = "[(''park'', ''park.png'')]" and placeId = "Id ''moon''"
        and cs = "[(''al'', \<lparr>name = ''Al'', poses = [(''happy'', ''al_happy.png'')]\<rparr>)]"
        and stranger = "Id ''bo''" and pose = None and position = None
        and charId = "Id ''al''" and img = "''al_happy.png''" and ch = "\<lparr>name = ''Al'', poses = [(''happy'', ''al_happy.png'')]\<rparr>"
        and p = "CharacterPose ''sad''" and p' = "CharacterPose ''happy''"
        and q = "CharacterPosition ''top''"
        and ?e3.0 = "log (BackgroundNotFound ''moon'' [''park'']) stage_engine"
        and n = "''Nowhere''" and rerr = "NodeNotFound ''Nowhere'' ''Nowhere'' [''Start'']"
        and ?e4.0 = stage_engine]
  by (simp add: stage_engine_def stage_story_def failing_compute_def failing_effect_def
      newEngine_def truthy_def lookup_defs label_text_def slot_of_def runEffect_def state_vars_def
      deref_def
      set_state_vars_def resolveNode_def resolveLoop.simps log_def
      executeStep_unfold setBackground_def then_return_def catch_rethrow_def Let_def)

text \<open>
  C7 at the input where it fails as stated: the start node is a jump to a node that
  does not exist, followed by a narration. The failed jump is reported and changes
  nothing, but execution does not continue: the cursor stays on the jump, the narration
  is never shown, and \<open>advance\<close> does nothing.
\<close>

theorem unknown_node_halts_counterexample:
  "resolveNode example_runtime (nodes lost_story) ''Nowhere'' =
     Inl (NodeNotFound ''Nowhere'' ''Nowhere'' [''Start'']) \<and>
   observe currentStepIndex (construct example_runtime [Map.empty] lost_story) = Some 0 \<and>
   observe currentSteps (construct example_runtime [Map.empty] lost_story) =
     Some [JumpTo (Some ''Nowhere''), Narration (Some ''after'')] \<and>
   observe page (construct example_runtime [Map.empty] lost_story) = Some [] \<and>
   observe waitingForInput (construct example_runtime [Map.empty] lost_story) = Some False \<and>
   observe currentStepIndex (after (construct example_runtime [Map.empty] lost_story) advance) = Some 0 \<and>
   observe page (after (construct example_runtime [Map.empty] lost_story) advance) = Some []"
  by (simp add: lost_story_def eval_defs)


end
